theory Spec2Isabelle
  imports Main "HOL-Library.AList" "HOL-Library.Word"
begin

section \<open>Governance types (types/governance.ts)\<close>

text \<open>
  The enumerations of the source are datatypes; their run-time values are the strings
  the source gives them, which matter wherever an enum is spliced into a message.
\<close>

datatype ClearanceLevel = L0 | L1 | L2

fun ClearanceLevel_str :: "ClearanceLevel \<Rightarrow> string" where
  "ClearanceLevel_str L0 = ''L0''"
| "ClearanceLevel_str L1 = ''L1''"
| "ClearanceLevel_str L2 = ''L2''"

datatype ActionType =
    READ_PUBLIC | QUERY_STATUS | LIST_RESOURCES
  | MODIFY_CONFIG | DEPLOY_SERVICE | MANAGE_SECRETS | EXECUTE_COMMAND
  | DESTROY_RESOURCE | MODIFY_PRODUCTION | TRANSFER_FUNDS | DELETE_AUDIT_LOG
  | ESCALATE_PRIVILEGES | EXECUTE_ARBITRARY

fun ActionType_str :: "ActionType \<Rightarrow> string" where
  "ActionType_str READ_PUBLIC = ''READ_PUBLIC''"
| "ActionType_str QUERY_STATUS = ''QUERY_STATUS''"
| "ActionType_str LIST_RESOURCES = ''LIST_RESOURCES''"
| "ActionType_str MODIFY_CONFIG = ''MODIFY_CONFIG''"
| "ActionType_str DEPLOY_SERVICE = ''DEPLOY_SERVICE''"
| "ActionType_str MANAGE_SECRETS = ''MANAGE_SECRETS''"
| "ActionType_str EXECUTE_COMMAND = ''EXECUTE_COMMAND''"
| "ActionType_str DESTROY_RESOURCE = ''DESTROY_RESOURCE''"
| "ActionType_str MODIFY_PRODUCTION = ''MODIFY_PRODUCTION''"
| "ActionType_str TRANSFER_FUNDS = ''TRANSFER_FUNDS''"
| "ActionType_str DELETE_AUDIT_LOG = ''DELETE_AUDIT_LOG''"
| "ActionType_str ESCALATE_PRIVILEGES = ''ESCALATE_PRIVILEGES''"
| "ActionType_str EXECUTE_ARBITRARY = ''EXECUTE_ARBITRARY''"

fun ACTION_CLEARANCE_MAP :: "ActionType \<Rightarrow> ClearanceLevel" where
  "ACTION_CLEARANCE_MAP READ_PUBLIC = L0"
| "ACTION_CLEARANCE_MAP QUERY_STATUS = L0"
| "ACTION_CLEARANCE_MAP LIST_RESOURCES = L0"
| "ACTION_CLEARANCE_MAP MODIFY_CONFIG = L1"
| "ACTION_CLEARANCE_MAP DEPLOY_SERVICE = L1"
| "ACTION_CLEARANCE_MAP MANAGE_SECRETS = L1"
| "ACTION_CLEARANCE_MAP EXECUTE_COMMAND = L1"
| "ACTION_CLEARANCE_MAP DESTROY_RESOURCE = L2"
| "ACTION_CLEARANCE_MAP MODIFY_PRODUCTION = L2"
| "ACTION_CLEARANCE_MAP TRANSFER_FUNDS = L2"
| "ACTION_CLEARANCE_MAP DELETE_AUDIT_LOG = L2"
| "ACTION_CLEARANCE_MAP ESCALATE_PRIVILEGES = L2"
| "ACTION_CLEARANCE_MAP EXECUTE_ARBITRARY = L2"

datatype ApprovalStatus = PENDING | APPROVED | REJECTED | EXPIRED | REVOKED

fun ApprovalStatus_str :: "ApprovalStatus \<Rightarrow> string" where
  "ApprovalStatus_str PENDING = ''PENDING''"
| "ApprovalStatus_str APPROVED = ''APPROVED''"
| "ApprovalStatus_str REJECTED = ''REJECTED''"
| "ApprovalStatus_str EXPIRED = ''EXPIRED''"
| "ApprovalStatus_str REVOKED = ''REVOKED''"

datatype GovernanceEventType =
    ACTION_REQUESTED | ACTION_APPROVED | ACTION_REJECTED | ACTION_EXECUTED
  | ACTION_FAILED | CLEARANCE_VIOLATION | APPROVAL_TIMEOUT | AUDIT_TAMPER_DETECTED

datatype Severity = info | warning | critical

datatype HashAlgorithm = SHA_256 | SHA_384 | SHA_512

fun HashAlgorithm_str :: "HashAlgorithm \<Rightarrow> string" where
  "HashAlgorithm_str SHA_256 = ''SHA-256''"
| "HashAlgorithm_str SHA_384 = ''SHA-384''"
| "HashAlgorithm_str SHA_512 = ''SHA-512''"

text \<open>
  A value of the host language, as far as the source looks into one: payloads, executor
  outputs and event payloads are of type \<open>unknown\<close> in the source. Numbers are
  integers here; a \<open>Date\<close> is its count of milliseconds.
\<close>

datatype jsval =
    JUndefined | JNull | JBool bool | JNum int | JStr string
  | JArr "jsval list" | JObj "(string \<times> jsval) list"

text \<open>
  Records carry the source's field names behind a prefix per interface, since several
  interfaces share \<open>id\<close>, \<open>timestamp\<close> and \<open>reason\<close>. An optional field
  is an \<open>option\<close>.
\<close>

record AgentIdentity =
  ag_id :: string
  ag_name :: string
  ag_clearanceLevel :: ClearanceLevel
  ag_sessionId :: string
  ag_publicKey :: "string option"

record ActionRequest =
  rq_id :: string
  rq_actionType :: ActionType
  rq_agentId :: string
  rq_timestamp :: int
  rq_payload :: jsval
  rq_signature :: "string option"
  rq_correlationId :: "string option"

record ActionResult =
  rs_success :: bool
  rs_requestId :: string
  rs_timestamp :: int
  rs_output :: "jsval option"
  rs_error :: "string option"
  rs_executedBy :: "string option"

record ApprovalRequest =
  ap_id :: string
  ap_actionRequestId :: string
  ap_status :: ApprovalStatus
  ap_requestedBy :: AgentIdentity
  ap_requestedAt :: int
  ap_approvers :: "string list"
  ap_approvedBy :: "string option"
  ap_approvedAt :: "int option"
  ap_rejectedBy :: "string option"
  ap_rejectedAt :: "int option"
  ap_rejectionReason :: "string option"
  ap_expiresAt :: int
  ap_evidenceHash :: string

text \<open>\<open>ChainEntry\<close> is \<open>AuditEntry\<close> with the \<open>chainIndex\<close> the trail adds.\<close>

record ChainEntry =
  ae_id :: string
  ae_timestamp :: int
  ae_sequenceNumber :: int
  ae_actionRequest :: ActionRequest
  ae_actionResult :: ActionResult
  ae_approvalRequest :: "ApprovalRequest option"
  ae_agentIdentity :: AgentIdentity
  ae_previousHash :: string
  ae_entryHash :: string
  ae_immutableProof :: string
  ae_chainIndex :: nat

record GovernanceConfig =
  l2ApprovalTimeoutMs :: int
  requiredApprovers :: int
  autoRejectOnTimeout :: bool
  auditRetentionDays :: int
  hashAlgorithm :: HashAlgorithm
  enableImmutableAudit :: bool
  emergencyOverrideKey :: "string option"

record GovernanceEvent =
  ev_type :: GovernanceEventType
  ev_timestamp :: int
  ev_payload :: jsval
  ev_severity :: Severity

text \<open>
  What the source takes from its host and its libraries: the three digests of CryptoJS
  (hex strings), \<open>JSON.stringify\<close> and \<open>Date.prototype.toISOString\<close>. They are
  parameters of the model, and no theorem below assumes anything of them.
\<close>

record host =
  SHA256 :: "string \<Rightarrow> string"
  SHA384 :: "string \<Rightarrow> string"
  SHA512 :: "string \<Rightarrow> string"
  JSON_stringify :: "jsval \<Rightarrow> string"
  toISOString :: "int \<Rightarrow> string"

text \<open>
  Every component's \<open>emitEvent\<close> hands the event to the handlers registered for its
  type. The model returns the events a call emits, in order, next to its result; a handler
  registered through \<open>MissionControl.onEvent\<close> is registered on all components and
  sees each of them.
\<close>

section \<open>Audit trail (audit/AuditTrail.ts)\<close>

record AuditTrail =
  at_entries :: "ChainEntry list"
  at_config :: GovernanceConfig
  at_sequenceCounter :: int
  at_genesisHash :: string

definition AuditTrail_hash :: "host \<Rightarrow> GovernanceConfig \<Rightarrow> string \<Rightarrow> string" where
  "AuditTrail_hash h cfg data =
     (case hashAlgorithm cfg of
        SHA_256 \<Rightarrow> SHA256 h data
      | SHA_384 \<Rightarrow> SHA384 h data
      | SHA_512 \<Rightarrow> SHA512 h data)"

definition computeGenesisHash :: "host \<Rightarrow> GovernanceConfig \<Rightarrow> int \<Rightarrow> string" where
  "computeGenesisHash h cfg created =
     AuditTrail_hash h cfg (JSON_stringify h (JObj
       [(''algorithm'', JStr (HashAlgorithm_str (hashAlgorithm cfg))),
        (''retention'', JNum (auditRetentionDays cfg)),
        (''created'', JNum created)]))"

text \<open>The constructor; \<open>created\<close> is the clock reading it takes for the genesis hash.\<close>

definition new_AuditTrail :: "host \<Rightarrow> GovernanceConfig \<Rightarrow> int \<Rightarrow> AuditTrail" where
  "new_AuditTrail h cfg created =
     \<lparr>at_entries = [], at_config = cfg, at_sequenceCounter = 0,
      at_genesisHash = computeGenesisHash h cfg created\<rparr>"

definition computeEntryHash :: "host \<Rightarrow> GovernanceConfig \<Rightarrow> ChainEntry \<Rightarrow> string" where
  "computeEntryHash h cfg entry =
     AuditTrail_hash h cfg (JSON_stringify h (JObj
       [(''id'', JStr (ae_id entry)),
        (''timestamp'', JStr (toISOString h (ae_timestamp entry))),
        (''sequenceNumber'', JNum (ae_sequenceNumber entry)),
        (''actionRequestId'', JStr (rq_id (ae_actionRequest entry))),
        (''actionResultSuccess'', JBool (rs_success (ae_actionResult entry))),
        (''agentId'', JStr (ag_id (ae_agentIdentity entry))),
        (''previousHash'', JStr (ae_previousHash entry))]))"

definition computeImmutableProof :: "host \<Rightarrow> GovernanceConfig \<Rightarrow> ChainEntry \<Rightarrow> string" where
  "computeImmutableProof h cfg entry =
     AuditTrail_hash h cfg (JSON_stringify h (JObj
       [(''entryHash'', JStr (ae_entryHash entry)),
        (''previousHash'', JStr (ae_previousHash entry)),
        (''sequenceNumber'', JNum (ae_sequenceNumber entry)),
        (''timestamp'', JStr (toISOString h (ae_timestamp entry)))]))"

text \<open>
  \<open>record\<close>: \<open>uuid\<close> is the id drawn for the entry and \<open>now\<close> the clock reading.
  The result is the entry, the event emitted and the trail after the append.
\<close>

definition AuditTrail_record ::
  "host \<Rightarrow> string \<Rightarrow> int \<Rightarrow> AuditTrail \<Rightarrow> ActionRequest \<Rightarrow> ActionResult \<Rightarrow> AgentIdentity \<Rightarrow>
   ApprovalRequest option \<Rightarrow> ChainEntry \<times> GovernanceEvent list \<times> AuditTrail" where
  "AuditTrail_record h uuid now t actionRequest actionResult agentIdentity approvalRequest =
     (let sequenceNumber = at_sequenceCounter t + 1;
          previousHash = (case at_entries t of
                            [] \<Rightarrow> at_genesisHash t
                          | _ # _ \<Rightarrow> ae_entryHash (last (at_entries t)));
          entry0 = \<lparr>ae_id = uuid, ae_timestamp = now, ae_sequenceNumber = sequenceNumber,
                    ae_actionRequest = actionRequest, ae_actionResult = actionResult,
                    ae_approvalRequest = approvalRequest, ae_agentIdentity = agentIdentity,
                    ae_previousHash = previousHash, ae_entryHash = [], ae_immutableProof = [],
                    ae_chainIndex = length (at_entries t)\<rparr>;
          entry1 = entry0\<lparr>ae_entryHash := computeEntryHash h (at_config t) entry0\<rparr>;
          entry = entry1\<lparr>ae_immutableProof := computeImmutableProof h (at_config t) entry1\<rparr>;
          event = \<lparr>ev_type = (if rs_success actionResult then ACTION_EXECUTED else ACTION_FAILED),
                   ev_timestamp = now,
                   ev_payload = JObj [(''entryId'', JStr (ae_id entry)),
                                      (''actionType'', JStr (ActionType_str (rq_actionType actionRequest)))],
                   ev_severity = (if rs_success actionResult then info else warning)\<rparr>
      in (entry, [event],
          t\<lparr>at_entries := at_entries t @ [entry], at_sequenceCounter := sequenceNumber\<rparr>))"

definition tamperEvent :: "int \<Rightarrow> ChainEntry \<Rightarrow> string \<Rightarrow> GovernanceEvent" where
  "tamperEvent now entry reason =
     \<lparr>ev_type = AUDIT_TAMPER_DETECTED, ev_timestamp = now,
      ev_payload = JObj [(''entryId'', JStr (ae_id entry)),
                         (''sequenceNumber'', JNum (ae_sequenceNumber entry)),
                         (''reason'', JStr reason)],
      ev_severity = critical\<rparr>"

text \<open>
  The loop of \<open>verifyChain\<close> over the entries from some index on;
  \<open>expectedPreviousHash\<close> is the genesis hash at index 0 and the entry hash of the
  entry before otherwise. The first mismatch emits one event and returns false.
\<close>

fun verifyLoop ::
  "host \<Rightarrow> GovernanceConfig \<Rightarrow> int \<Rightarrow> string \<Rightarrow> ChainEntry list \<Rightarrow> bool \<times> GovernanceEvent list" where
  "verifyLoop h cfg now expectedPreviousHash [] = (True, [])"
| "verifyLoop h cfg now expectedPreviousHash (entry # rest) =
     (if ae_previousHash entry \<noteq> expectedPreviousHash
        then (False, [tamperEvent now entry ''PREVIOUS_HASH_MISMATCH''])
      else if ae_entryHash entry \<noteq> computeEntryHash h cfg entry
        then (False, [tamperEvent now entry ''ENTRY_HASH_MISMATCH''])
      else if ae_immutableProof entry \<noteq> computeImmutableProof h cfg entry
        then (False, [tamperEvent now entry ''PROOF_MISMATCH''])
      else verifyLoop h cfg now (ae_entryHash entry) rest)"

definition verifyChain :: "host \<Rightarrow> int \<Rightarrow> AuditTrail \<Rightarrow> bool \<times> GovernanceEvent list" where
  "verifyChain h now t = verifyLoop h (at_config t) now (at_genesisHash t) (at_entries t)"

definition getLatestAnchor :: "AuditTrail \<Rightarrow> string" where
  "getLatestAnchor t =
     (case at_entries t of [] \<Rightarrow> at_genesisHash t | _ # _ \<Rightarrow> ae_entryHash (last (at_entries t)))"

text \<open>A run of \<open>record\<close> calls, each with the id and the clock reading it draws.\<close>

record record_call =
  rc_uuid :: string
  rc_now :: int
  rc_actionRequest :: ActionRequest
  rc_actionResult :: ActionResult
  rc_agentIdentity :: AgentIdentity
  rc_approvalRequest :: "ApprovalRequest option"

definition record_one :: "host \<Rightarrow> AuditTrail \<Rightarrow> record_call \<Rightarrow> AuditTrail" where
  "record_one h t c =
     snd (snd (AuditTrail_record h (rc_uuid c) (rc_now c) t (rc_actionRequest c)
                 (rc_actionResult c) (rc_agentIdentity c) (rc_approvalRequest c)))"

fun record_all :: "host \<Rightarrow> AuditTrail \<Rightarrow> record_call list \<Rightarrow> AuditTrail" where
  "record_all h t [] = t"
| "record_all h t (c # cs) = record_all h (record_one h t c) cs"

text \<open>
  An out-of-band mutation of a stored entry: \<open>record\<close> returns the very object it
  stores, so a caller holding it can overwrite any field.
\<close>

definition mutateEntry :: "nat \<Rightarrow> (ChainEntry \<Rightarrow> ChainEntry) \<Rightarrow> AuditTrail \<Rightarrow> AuditTrail" where
  "mutateEntry k f t =
     (if k < length (at_entries t)
        then t\<lparr>at_entries := (at_entries t)[k := f (at_entries t ! k)]\<rparr>
      else t)"

section \<open>Host helpers\<close>

text \<open>
  \<open>Number.prototype.toString\<close> for a non-negative integer in base 10 and base 16,
  \<open>String.prototype.padStart\<close>, and the template-literal rendering of an integer.
\<close>

definition digit_char :: "nat \<Rightarrow> char" where
  "digit_char d = (''0123456789abcdef'' ! d)"

fun dec :: "nat \<Rightarrow> string" where
  "dec n = (if n < 10 then [digit_char n] else dec (n div 10) @ [digit_char (n mod 10)])"

fun hex :: "nat \<Rightarrow> string" where
  "hex n = (if n < 16 then [digit_char n] else hex (n div 16) @ [digit_char (n mod 16)])"

definition show_int :: "int \<Rightarrow> string" where
  "show_int i = (if i < 0 then CHR ''-'' # dec (nat (- i)) else dec (nat i))"

definition padStart :: "nat \<Rightarrow> char \<Rightarrow> string \<Rightarrow> string" where
  "padStart n c s = replicate (n - length s) c @ s"

text \<open>
  The "simple hash" both the engine and the workflow carry: per character
  \<open>hash = ((hash << 5) - hash) + char; hash = hash & hash\<close>, which keeps a signed
  32-bit integer, then \<open>Math.abs(hash).toString(16)\<close>. A character is its code.
\<close>

fun simpleHashLoop :: "32 word \<Rightarrow> string \<Rightarrow> 32 word" where
  "simpleHashLoop hash [] = hash"
| "simpleHashLoop hash (c # cs) =
     simpleHashLoop ((push_bit 5 hash - hash) + of_nat (of_char c)) cs"

definition simpleHash :: "string \<Rightarrow> string" where
  "simpleHash data = hex (nat \<bar>sint (simpleHashLoop 0 data)\<bar>)"

text \<open>
  Exceptions are values. \<open>Error\<close> is a plain \<open>Error\<close> with its message,
  \<open>TypeError\<close> what the host raises on \<open>undefined.length\<close>, and
  \<open>MissionControlError\<close> carries message, code and the optional audit entry.
\<close>

datatype error =
    Error string
  | TypeError string
  | MissionControlError string string "ChainEntry option"

text \<open>
  \<open>JSON.stringify(payload)\<close> is \<open>undefined\<close> for an undefined payload, and the
  simple hash then reads \<open>data.length\<close> of \<open>undefined\<close>.
\<close>

definition hashOfStringified :: "host \<Rightarrow> (string \<Rightarrow> string) \<Rightarrow> jsval \<Rightarrow> error + string" where
  "hashOfStringified h hashfn payload =
     (if payload = JUndefined
        then Inl (TypeError ''Cannot read properties of undefined (reading 'length')'')
      else Inr (hashfn (JSON_stringify h payload)))"

section \<open>Enforcement engine (governance/EnforcementHooks.ts)\<close>

record EnforcementResult =
  er_allowed :: bool
  er_requiredClearance :: ClearanceLevel
  er_agentClearance :: ClearanceLevel
  er_requiresApproval :: bool
  er_approvalRequest :: "ApprovalRequest option"
  er_reason :: "string option"

record PreExecutionResult =
  pre_proceed :: bool
  pre_enforcementResult :: EnforcementResult
  pre_intercepted :: "bool option"
  pre_modifiedPayload :: "jsval option"
  pre_reason :: "string option"

record PostExecutionResult =
  po_logged :: bool
  po_cleanupNeeded :: bool
  po_cleanupActions :: "string list option"

text \<open>
  The engine's state. A \<open>Map\<close> is an association list in insertion order
  (\<open>AList.update\<close> is \<open>Map.set\<close>), the \<open>Set\<close> of executed ids a set.
\<close>

record EnforcementEngine =
  ee_config :: GovernanceConfig
  ee_approvalQueue :: "(string \<times> ApprovalRequest) list"
  ee_executedActions :: "string set"

definition new_EnforcementEngine :: "GovernanceConfig \<Rightarrow> EnforcementEngine" where
  "new_EnforcementEngine cfg =
     \<lparr>ee_config = cfg, ee_approvalQueue = [], ee_executedActions = {}\<rparr>"

text \<open>\<open>Array.prototype.indexOf\<close>: the first position, or -1.\<close>

fun indexOf :: "'a list \<Rightarrow> 'a \<Rightarrow> int" where
  "indexOf [] x = -1"
| "indexOf (y # ys) x = (if y = x then 0 else (let i = indexOf ys x in if i < 0 then -1 else i + 1))"

definition hasSufficientClearance :: "ClearanceLevel \<Rightarrow> ClearanceLevel \<Rightarrow> bool" where
  "hasSufficientClearance agentLevel requiredLevel =
     (let levels = [L0, L1, L2];
          agentIndex = indexOf levels agentLevel;
          requiredIndex = indexOf levels requiredLevel
      in agentIndex \<ge> requiredIndex)"

definition EnforcementEngine_hash :: "string \<Rightarrow> string" where
  "EnforcementEngine_hash data = padStart 8 CHR ''0'' (simpleHash data)"

definition computePayloadHash :: "host \<Rightarrow> jsval \<Rightarrow> error + string" where
  "computePayloadHash h payload = hashOfStringified h EnforcementEngine_hash payload"

text \<open>
  What a call draws from its surroundings: the ids of \<open>uuidv4()\<close>, one clock reading
  (the source reads the clock several times within a call; no branch depends on it), and
  the two \<open>Math.random().toString(36).substr(2, 9)\<close> suffixes of the approval ids.
\<close>

record env =
  uuid_action :: string
  uuid_correlation :: string
  uuid_entry :: string
  dateNow :: int
  random_engine :: string
  random_workflow :: string

text \<open>
  \<open>createApprovalRequest\<close>. The scheduled timeout is a later callback
  (\<open>approvalTimeout\<close> below); it cannot run before the current call has finished.
\<close>

definition createApprovalRequest ::
  "host \<Rightarrow> env \<Rightarrow> EnforcementEngine \<Rightarrow> ActionRequest \<Rightarrow> AgentIdentity \<Rightarrow>
   error + (ApprovalRequest \<times> GovernanceEvent list \<times> EnforcementEngine)" where
  "createApprovalRequest h e eng actionRequest agentIdentity =
     (let approvalId = ''approval-'' @ show_int (dateNow e) @ ''-'' @ random_engine e;
          now = dateNow e;
          expiresAt = now + l2ApprovalTimeoutMs (ee_config eng)
      in case computePayloadHash h (rq_payload actionRequest) of
           Inl err \<Rightarrow> Inl err
         | Inr payloadHash \<Rightarrow>
             (let evidenceData = JSON_stringify h (JObj
                    [(''actionId'', JStr (rq_id actionRequest)),
                     (''actionType'', JStr (ActionType_str (rq_actionType actionRequest))),
                     (''agentId'', JStr (ag_id agentIdentity)),
                     (''timestamp'', JStr (toISOString h now)),
                     (''payloadHash'', JStr payloadHash)]);
                  approvalRequest =
                    \<lparr>ap_id = approvalId, ap_actionRequestId = rq_id actionRequest,
                     ap_status = PENDING, ap_requestedBy = agentIdentity, ap_requestedAt = now,
                     ap_approvers = [], ap_approvedBy = None, ap_approvedAt = None,
                     ap_rejectedBy = None, ap_rejectedAt = None, ap_rejectionReason = None,
                     ap_expiresAt = expiresAt,
                     ap_evidenceHash = EnforcementEngine_hash evidenceData\<rparr>;
                  event =
                    \<lparr>ev_type = ACTION_REQUESTED, ev_timestamp = now,
                     ev_payload = JObj
                       [(''approvalId'', JStr approvalId),
                        (''actionId'', JStr (rq_id actionRequest)),
                        (''actionType'', JStr (ActionType_str (rq_actionType actionRequest))),
                        (''expiresAt'', JNum expiresAt)],
                     ev_severity = info\<rparr>
              in Inr (approvalRequest, [event],
                      eng\<lparr>ee_approvalQueue :=
                            AList.update approvalId approvalRequest (ee_approvalQueue eng)\<rparr>)))"

text \<open>The callback \<open>scheduleApprovalTimeout\<close> registers, as a transition of its own.\<close>

definition approvalTimeout ::
  "int \<Rightarrow> EnforcementEngine \<Rightarrow> string \<Rightarrow> GovernanceEvent list \<times> EnforcementEngine" where
  "approvalTimeout now eng approvalId =
     (case map_of (ee_approvalQueue eng) approvalId of
        None \<Rightarrow> ([], eng)
      | Some approval \<Rightarrow>
          if ap_status approval = PENDING
            then ([\<lparr>ev_type = APPROVAL_TIMEOUT, ev_timestamp = now,
                     ev_payload = JObj [(''approvalId'', JStr approvalId),
                                        (''actionId'', JStr (ap_actionRequestId approval))],
                     ev_severity = warning\<rparr>],
                  eng\<lparr>ee_approvalQueue :=
                        AList.update approvalId (approval\<lparr>ap_status := EXPIRED\<rparr>)
                          (ee_approvalQueue eng)\<rparr>)
          else ([], eng))"

definition validateAction ::
  "host \<Rightarrow> env \<Rightarrow> EnforcementEngine \<Rightarrow> ActionRequest \<Rightarrow> AgentIdentity \<Rightarrow>
   error + (EnforcementResult \<times> GovernanceEvent list \<times> EnforcementEngine)" where
  "validateAction h e eng actionRequest agentIdentity =
     (let requiredClearance = ACTION_CLEARANCE_MAP (rq_actionType actionRequest);
          agentClearance = ag_clearanceLevel agentIdentity
      in if \<not> hasSufficientClearance agentClearance requiredClearance
           then Inr (\<lparr>er_allowed = False, er_requiredClearance = requiredClearance,
                      er_agentClearance = agentClearance, er_requiresApproval = False,
                      er_approvalRequest = None,
                      er_reason = Some (''Insufficient clearance: requires '' @
                                        ClearanceLevel_str requiredClearance @
                                        '', agent has '' @ ClearanceLevel_str agentClearance)\<rparr>,
                     [\<lparr>ev_type = CLEARANCE_VIOLATION, ev_timestamp = dateNow e,
                       ev_payload = JObj
                         [(''actionId'', JStr (rq_id actionRequest)),
                          (''actionType'', JStr (ActionType_str (rq_actionType actionRequest))),
                          (''agentId'', JStr (ag_id agentIdentity)),
                          (''required'', JStr (ClearanceLevel_str requiredClearance)),
                          (''actual'', JStr (ClearanceLevel_str agentClearance))],
                       ev_severity = critical\<rparr>],
                     eng)
         else if requiredClearance = L2
           then (case createApprovalRequest h e eng actionRequest agentIdentity of
                   Inl err \<Rightarrow> Inl err
                 | Inr (approvalRequest, evs, eng') \<Rightarrow>
                     Inr (\<lparr>er_allowed = True, er_requiredClearance = requiredClearance,
                           er_agentClearance = agentClearance, er_requiresApproval = True,
                           er_approvalRequest = Some approvalRequest,
                           er_reason = Some ''L2 action requires human approval''\<rparr>,
                          evs, eng'))
         else Inr (\<lparr>er_allowed = True, er_requiredClearance = requiredClearance,
                    er_agentClearance = agentClearance, er_requiresApproval = False,
                    er_approvalRequest = None, er_reason = None\<rparr>,
                   [], eng))"

text \<open>
  \<open>sanitizePayload\<close>. \<open>typeof payload === 'object'\<close> holds of objects, arrays and
  \<open>null\<close>; the spread \<open>{ ...payload }\<close> copies the own enumerable properties, which
  for an array are its indices.
\<close>

definition dangerousFields :: "string list" where
  "dangerousFields = [''__proto__'', ''constructor'', ''prototype'']"

fun ownProperties :: "jsval \<Rightarrow> (string \<times> jsval) list" where
  "ownProperties (JObj kvs) = kvs"
| "ownProperties (JArr xs) = zip (map dec [0..<length xs]) xs"
| "ownProperties _ = []"

definition deleteField :: "string \<Rightarrow> (string \<times> jsval) list \<Rightarrow> (string \<times> jsval) list" where
  "deleteField field kvs = filter (\<lambda>kv. fst kv \<noteq> field) kvs"

fun typeofObject :: "jsval \<Rightarrow> bool" where
  "typeofObject (JObj _) = True"
| "typeofObject (JArr _) = True"
| "typeofObject JNull = True"
| "typeofObject _ = False"

definition sanitizePayload :: "jsval \<Rightarrow> ActionType \<Rightarrow> jsval" where
  "sanitizePayload payload actionType =
     (if \<not> typeofObject payload \<or> payload = JNull then payload
      else JObj (fold deleteField dangerousFields (ownProperties payload)))"

definition preExecute ::
  "host \<Rightarrow> env \<Rightarrow> EnforcementEngine \<Rightarrow> ActionRequest \<Rightarrow> AgentIdentity \<Rightarrow>
   error + (PreExecutionResult \<times> GovernanceEvent list \<times> EnforcementEngine)" where
  "preExecute h e eng actionRequest agentIdentity =
     (case validateAction h e eng actionRequest agentIdentity of
        Inl err \<Rightarrow> Inl err
      | Inr (enforcementResult, evs, eng') \<Rightarrow>
          (let stop = (\<lambda>reason.
                 Inr (\<lparr>pre_proceed = False, pre_enforcementResult = enforcementResult,
                       pre_intercepted = Some True, pre_modifiedPayload = None,
                       pre_reason = reason\<rparr>, evs, eng'));
               go = Inr (\<lparr>pre_proceed = True, pre_enforcementResult = enforcementResult,
                          pre_intercepted = None,
                          pre_modifiedPayload =
                            Some (sanitizePayload (rq_payload actionRequest)
                                    (rq_actionType actionRequest)),
                          pre_reason = None\<rparr>, evs, eng')
           in if \<not> er_allowed enforcementResult then stop (er_reason enforcementResult)
              else if rq_id actionRequest \<in> ee_executedActions eng'
                then stop (Some ''Action already executed (idempotency check)'')
              else if er_requiresApproval enforcementResult
                then (case er_approvalRequest enforcementResult of
                        None \<Rightarrow> go
                      | Some approval \<Rightarrow>
                          if ap_status approval = PENDING
                            then stop (Some ''Waiting for L2 approval'')
                          else if ap_status approval = REJECTED
                            then stop (Some (''Approval rejected: '' @
                                   (case ap_rejectionReason approval of
                                      None \<Rightarrow> ''undefined'' | Some r \<Rightarrow> r)))
                          else if ap_status approval = EXPIRED
                            then stop (Some ''Approval request expired'')
                          else go)
              else go))"

definition postExecute ::
  "env \<Rightarrow> EnforcementEngine \<Rightarrow> ActionRequest \<Rightarrow> jsval \<Rightarrow> string option \<Rightarrow>
   PostExecutionResult \<times> GovernanceEvent list \<times> EnforcementEngine" where
  "postExecute e eng actionRequest result err =
     (let eng' = eng\<lparr>ee_executedActions := insert (rq_id actionRequest) (ee_executedActions eng)\<rparr>;
          cleanupNeeded = (err \<noteq> None);
          cleanupActions = (if cleanupNeeded
                              then [''ROLLBACK_PENDING_CHANGES'', ''RELEASE_RESOURCES'']
                            else []);
          event = (case err of
                     Some message \<Rightarrow>
                       \<lparr>ev_type = ACTION_FAILED, ev_timestamp = dateNow e,
                        ev_payload = JObj [(''actionId'', JStr (rq_id actionRequest)),
                                           (''error'', JStr message)],
                        ev_severity = warning\<rparr>
                   | None \<Rightarrow>
                       \<lparr>ev_type = ACTION_EXECUTED, ev_timestamp = dateNow e,
                        ev_payload = JObj
                          [(''actionId'', JStr (rq_id actionRequest)),
                           (''actionType'', JStr (ActionType_str (rq_actionType actionRequest)))],
                        ev_severity = info\<rparr>)
      in (\<lparr>po_logged = True, po_cleanupNeeded = cleanupNeeded,
           po_cleanupActions = (if cleanupNeeded then Some cleanupActions else None)\<rparr>,
          [event], eng'))"

text \<open>\<open>getAllPendingApprovals\<close> of the engine.\<close>

definition getAllPendingApprovals :: "EnforcementEngine \<Rightarrow> ApprovalRequest list" where
  "getAllPendingApprovals eng =
     filter (\<lambda>a. ap_status a = PENDING) (map snd (ee_approvalQueue eng))"

section \<open>Approval workflow (governance/ApprovalWorkflow.ts)\<close>

record ApproverIdentity =
  av_id :: string
  av_name :: string
  av_clearanceLevel :: ClearanceLevel
  av_email :: "string option"
  av_publicKey :: "string option"

record ApprovalDecision =
  ad_approverId :: string
  ad_approved :: bool
  ad_timestamp :: int
  ad_signature :: "string option"
  ad_reason :: "string option"

record ApprovalWorkflowConfig =
  minApprovers :: int
  maxApprovers :: int
  requireUnanimous :: bool
  escalationTimeoutMs :: int
  notifyChannels :: "string list"
  requireMFA :: bool

record ApprovalWorkflow =
  wf_config :: GovernanceConfig
  wf_workflowConfig :: ApprovalWorkflowConfig
  wf_approvedApprovers :: "(string \<times> ApproverIdentity) list"
  wf_pendingApprovals :: "(string \<times> ApprovalRequest) list"
  wf_approvalDecisions :: "(string \<times> ApprovalDecision list) list"

definition DEFAULT_WORKFLOW_CONFIG :: ApprovalWorkflowConfig where
  "DEFAULT_WORKFLOW_CONFIG =
     \<lparr>minApprovers = 1, maxApprovers = 3, requireUnanimous = False,
      escalationTimeoutMs = 300000, notifyChannels = [''email'', ''slack''],
      requireMFA = True\<rparr>"

definition new_ApprovalWorkflow :: "GovernanceConfig \<Rightarrow> ApprovalWorkflowConfig \<Rightarrow> ApprovalWorkflow" where
  "new_ApprovalWorkflow cfg workflowConfig =
     \<lparr>wf_config = cfg, wf_workflowConfig = workflowConfig, wf_approvedApprovers = [],
      wf_pendingApprovals = [], wf_approvalDecisions = []\<rparr>"

definition registerApprover :: "ApprovalWorkflow \<Rightarrow> ApproverIdentity \<Rightarrow> error + ApprovalWorkflow" where
  "registerApprover wfl approver =
     (if av_clearanceLevel approver \<noteq> L2
        then Inl (Error (''Approver must have L2 clearance, has '' @
                         ClearanceLevel_str (av_clearanceLevel approver)))
      else Inr (wfl\<lparr>wf_approvedApprovers :=
                     AList.update (av_id approver) approver (wf_approvedApprovers wfl)\<rparr>))"

definition unregisterApprover :: "ApprovalWorkflow \<Rightarrow> string \<Rightarrow> ApprovalWorkflow" where
  "unregisterApprover wfl approverId =
     wfl\<lparr>wf_approvedApprovers := AList.delete approverId (wf_approvedApprovers wfl)\<rparr>"

text \<open>\<open>xs.slice(0, end)\<close>: a negative \<open>end\<close> counts from the end of the array.\<close>

definition slice0 :: "'a list \<Rightarrow> int \<Rightarrow> 'a list" where
  "slice0 xs end = (if end < 0 then take (nat (int (length xs) + end)) xs else take (nat end) xs)"

definition selectApprovers :: "ApprovalWorkflow \<Rightarrow> ActionRequest \<Rightarrow> error + ApproverIdentity list" where
  "selectApprovers wfl actionRequest =
     (let allApprovers = map snd (wf_approvedApprovers wfl)
      in if length allApprovers = 0 then Inl (Error ''No L2 approvers registered'')
         else (let count = min (minApprovers (wf_workflowConfig wfl)) (int (length allApprovers))
               in Inr (slice0 allApprovers count)))"

definition getDecisions :: "ApprovalWorkflow \<Rightarrow> string \<Rightarrow> ApprovalDecision list" where
  "getDecisions wfl approvalId =
     (case map_of (wf_approvalDecisions wfl) approvalId of None \<Rightarrow> [] | Some ds \<Rightarrow> ds)"

text \<open>
  \<open>checkApprovalThreshold\<close>. In the unanimous branch the source asserts the request
  exists (\<open>get(approvalId)!\<close>); reading \<open>approvers\<close> of a missing one is a
  \<open>TypeError\<close>.
\<close>

definition checkApprovalThreshold :: "ApprovalWorkflow \<Rightarrow> string \<Rightarrow> error + bool" where
  "checkApprovalThreshold wfl approvalId =
     (let decisions = getDecisions wfl approvalId;
          approvals = filter ad_approved decisions
      in if requireUnanimous (wf_workflowConfig wfl)
           then (case map_of (wf_pendingApprovals wfl) approvalId of
                   None \<Rightarrow> Inl (TypeError ''Cannot read properties of undefined (reading 'approvers')'')
                 | Some approval \<Rightarrow> Inr (length approvals = length (ap_approvers approval)))
         else Inr (int (length approvals) \<ge> minApprovers (wf_workflowConfig wfl)))"

definition generateApprovalId :: "env \<Rightarrow> string" where
  "generateApprovalId e = ''L2-'' @ show_int (dateNow e) @ ''-'' @ random_workflow e"

definition ApprovalWorkflow_hash :: "string \<Rightarrow> string" where
  "ApprovalWorkflow_hash data = padStart 16 CHR ''0'' (simpleHash data)"

definition hashPayload :: "host \<Rightarrow> jsval \<Rightarrow> error + string" where
  "hashPayload h payload = hashOfStringified h ApprovalWorkflow_hash payload"

definition generateEvidenceHash ::
  "host \<Rightarrow> env \<Rightarrow> ActionRequest \<Rightarrow> AgentIdentity \<Rightarrow> error + string" where
  "generateEvidenceHash h e actionRequest requester =
     (case hashPayload h (rq_payload actionRequest) of
        Inl err \<Rightarrow> Inl err
      | Inr payloadSnapshot \<Rightarrow>
          Inr (ApprovalWorkflow_hash (JSON_stringify h (JObj
                 [(''actionId'', JStr (rq_id actionRequest)),
                  (''actionType'', JStr (ActionType_str (rq_actionType actionRequest))),
                  (''agentId'', JStr (ag_id requester)),
                  (''timestamp'', JNum (dateNow e)),
                  (''payloadSnapshot'', JStr payloadSnapshot)]))))"

text \<open>
  \<open>submitForApproval\<close>. \<open>notifyApprovers\<close> only writes to the console; the
  escalation the call schedules is the later callback \<open>escalation\<close> below.
\<close>

definition submitForApproval ::
  "host \<Rightarrow> env \<Rightarrow> ApprovalWorkflow \<Rightarrow> ActionRequest \<Rightarrow> AgentIdentity \<Rightarrow>
   error + (ApprovalRequest \<times> GovernanceEvent list \<times> ApprovalWorkflow)" where
  "submitForApproval h e wfl actionRequest requester =
     (let approvalId = generateApprovalId e;
          now = dateNow e;
          expiresAt = now + l2ApprovalTimeoutMs (wf_config wfl)
      in case selectApprovers wfl actionRequest of
           Inl err \<Rightarrow> Inl err
         | Inr selectedApprovers \<Rightarrow>
             (case generateEvidenceHash h e actionRequest requester of
                Inl err \<Rightarrow> Inl err
              | Inr evidenceHash \<Rightarrow>
                  (let approvalRequest =
                         \<lparr>ap_id = approvalId, ap_actionRequestId = rq_id actionRequest,
                          ap_status = PENDING, ap_requestedBy = requester, ap_requestedAt = now,
                          ap_approvers = map av_id selectedApprovers,
                          ap_approvedBy = None, ap_approvedAt = None, ap_rejectedBy = None,
                          ap_rejectedAt = None, ap_rejectionReason = None,
                          ap_expiresAt = expiresAt, ap_evidenceHash = evidenceHash\<rparr>;
                       event =
                         \<lparr>ev_type = ACTION_REQUESTED, ev_timestamp = now,
                          ev_payload = JObj
                            [(''approvalId'', JStr approvalId),
                             (''actionId'', JStr (rq_id actionRequest)),
                             (''actionType'', JStr (ActionType_str (rq_actionType actionRequest))),
                             (''requesterId'', JStr (ag_id requester)),
                             (''approvers'', JArr (map (\<lambda>a. JStr (av_id a)) selectedApprovers)),
                             (''expiresAt'', JNum expiresAt)],
                          ev_severity = info\<rparr>
                   in Inr (approvalRequest, [event],
                           wfl\<lparr>wf_pendingApprovals :=
                                 AList.update approvalId approvalRequest (wf_pendingApprovals wfl),
                               wf_approvalDecisions :=
                                 AList.update approvalId [] (wf_approvalDecisions wfl)\<rparr>))))"

definition escalation :: "int \<Rightarrow> ApprovalWorkflow \<Rightarrow> string \<Rightarrow> GovernanceEvent list" where
  "escalation now wfl approvalId =
     (case map_of (wf_pendingApprovals wfl) approvalId of
        None \<Rightarrow> []
      | Some approval \<Rightarrow>
          if ap_status approval = PENDING
            then [\<lparr>ev_type = APPROVAL_TIMEOUT, ev_timestamp = now,
                    ev_payload = JObj
                      [(''approvalId'', JStr approvalId),
                       (''actionId'', JStr (ap_actionRequestId approval)),
                       (''message'', JStr ''Approval escalation - no response within timeout'')],
                    ev_severity = warning\<rparr>]
          else [])"

definition approve ::
  "int \<Rightarrow> ApprovalWorkflow \<Rightarrow> string \<Rightarrow> string \<Rightarrow> string option \<Rightarrow> string option \<Rightarrow>
   error + (ApprovalRequest \<times> GovernanceEvent list \<times> ApprovalWorkflow)" where
  "approve now wfl approvalId approverId signature reason =
     (case map_of (wf_pendingApprovals wfl) approvalId of
        None \<Rightarrow> Inl (Error (''Approval request '' @ approvalId @ '' not found''))
      | Some approval \<Rightarrow>
          if ap_status approval \<noteq> PENDING
            then Inl (Error (''Approval request '' @ approvalId @ '' is not pending ('' @
                             ApprovalStatus_str (ap_status approval) @ '')''))
          else if approverId \<notin> set (ap_approvers approval)
            then Inl (Error (''Approver '' @ approverId @ '' is not authorized for this request''))
          else (case map_of (wf_approvedApprovers wfl) approverId of
                  None \<Rightarrow> Inl (Error (''Approver '' @ approverId @ '' is not registered''))
                | Some approver \<Rightarrow>
                    (let decisions = getDecisions wfl approvalId
                     in case find (\<lambda>d. ad_approverId d = approverId) decisions of
                          Some existingDecision \<Rightarrow>
                            Inl (Error (''Approver '' @ approverId @
                                        '' has already submitted a decision''))
                        | None \<Rightarrow>
                            (let decision = \<lparr>ad_approverId = approverId, ad_approved = True,
                                             ad_timestamp = now, ad_signature = signature,
                                             ad_reason = reason\<rparr>;
                                 decisions' = decisions @ [decision];
                                 wf1 = wfl\<lparr>wf_approvalDecisions :=
                                            AList.update approvalId decisions'
                                              (wf_approvalDecisions wfl)\<rparr>
                             in case checkApprovalThreshold wf1 approvalId of
                                  Inl err \<Rightarrow> Inl err
                                | Inr False \<Rightarrow> Inr (approval, [], wf1)
                                | Inr True \<Rightarrow>
                                    (let approval' = approval\<lparr>ap_status := APPROVED,
                                                              ap_approvedBy := Some approverId,
                                                              ap_approvedAt := Some now\<rparr>;
                                         event =
                                           \<lparr>ev_type = ACTION_APPROVED, ev_timestamp = now,
                                            ev_payload = JObj
                                              [(''approvalId'', JStr approvalId),
                                               (''actionId'', JStr (ap_actionRequestId approval)),
                                               (''approvedBy'', JStr approverId),
                                               (''decisionCount'', JNum (int (length decisions')))],
                                            ev_severity = info\<rparr>
                                     in Inr (approval', [event],
                                             wf1\<lparr>wf_pendingApprovals :=
                                                   AList.update approvalId approval'
                                                     (wf_pendingApprovals wf1)\<rparr>))))))"

definition reject ::
  "int \<Rightarrow> ApprovalWorkflow \<Rightarrow> string \<Rightarrow> string \<Rightarrow> string \<Rightarrow> string option \<Rightarrow>
   error + (ApprovalRequest \<times> GovernanceEvent list \<times> ApprovalWorkflow)" where
  "reject now wfl approvalId approverId rejectionReason signature =
     (case map_of (wf_pendingApprovals wfl) approvalId of
        None \<Rightarrow> Inl (Error (''Approval request '' @ approvalId @ '' not found''))
      | Some approval \<Rightarrow>
          if ap_status approval \<noteq> PENDING
            then Inl (Error (''Approval request '' @ approvalId @ '' is not pending''))
          else (case map_of (wf_approvedApprovers wfl) approverId of
                  None \<Rightarrow> Inl (Error (''Approver '' @ approverId @ '' is not registered''))
                | Some approver \<Rightarrow>
                    (let approval' = approval\<lparr>ap_status := REJECTED,
                                              ap_rejectedBy := Some approverId,
                                              ap_rejectedAt := Some now,
                                              ap_rejectionReason := Some rejectionReason\<rparr>;
                         event =
                           \<lparr>ev_type = ACTION_REJECTED, ev_timestamp = now,
                            ev_payload = JObj
                              [(''approvalId'', JStr approvalId),
                               (''actionId'', JStr (ap_actionRequestId approval)),
                               (''rejectedBy'', JStr approverId),
                               (''reason'', JStr rejectionReason)],
                            ev_severity = warning\<rparr>
                     in Inr (approval', [event],
                             wfl\<lparr>wf_pendingApprovals :=
                                   AList.update approvalId approval' (wf_pendingApprovals wfl)\<rparr>))))"

definition revoke ::
  "int \<Rightarrow> ApprovalWorkflow \<Rightarrow> string \<Rightarrow> string \<Rightarrow> string \<Rightarrow>
   error + (ApprovalRequest \<times> GovernanceEvent list \<times> ApprovalWorkflow)" where
  "revoke now wfl approvalId revokedBy reason =
     (case map_of (wf_pendingApprovals wfl) approvalId of
        None \<Rightarrow> Inl (Error (''Approval request '' @ approvalId @ '' not found''))
      | Some approval \<Rightarrow>
          if ap_status approval \<noteq> APPROVED
            then Inl (Error (''Cannot revoke request with status '' @
                             ApprovalStatus_str (ap_status approval)))
          else (let approval' = approval\<lparr>ap_status := REVOKED\<rparr>;
                    event =
                      \<lparr>ev_type = ACTION_REJECTED, ev_timestamp = now,
                       ev_payload = JObj
                         [(''approvalId'', JStr approvalId),
                          (''actionId'', JStr (ap_actionRequestId approval)),
                          (''revokedBy'', JStr revokedBy),
                          (''reason'', JStr reason)],
                       ev_severity = critical\<rparr>
                in Inr (approval', [event],
                        wfl\<lparr>wf_pendingApprovals :=
                              AList.update approvalId approval' (wf_pendingApprovals wfl)\<rparr>)))"

definition getApproval :: "ApprovalWorkflow \<Rightarrow> string \<Rightarrow> ApprovalRequest option" where
  "getApproval wfl approvalId = map_of (wf_pendingApprovals wfl) approvalId"

definition getPendingApprovals :: "ApprovalWorkflow \<Rightarrow> ApprovalRequest list" where
  "getPendingApprovals wfl =
     filter (\<lambda>a. ap_status a = PENDING) (map snd (wf_pendingApprovals wfl))"

section \<open>Mission control (core/MissionControl.ts)\<close>

record ExecutionContext =
  ec_actionId :: string
  ec_agentId :: string
  ec_startedAt :: int
  ec_clearanceLevel :: ClearanceLevel
  ec_approvalId :: "string option"

record MissionControl =
  mc_config :: GovernanceConfig
  mc_auditTrail :: AuditTrail
  mc_enforcementEngine :: EnforcementEngine
  mc_approvalWorkflow :: ApprovalWorkflow
  mc_activeContexts :: "(string \<times> ExecutionContext) list"

definition DEFAULT_GOVERNANCE_CONFIG :: GovernanceConfig where
  "DEFAULT_GOVERNANCE_CONFIG =
     \<lparr>l2ApprovalTimeoutMs = 300000, requiredApprovers = 1, autoRejectOnTimeout = True,
      auditRetentionDays = 365, hashAlgorithm = SHA_256, enableImmutableAudit = True,
      emergencyOverrideKey = None\<rparr>"

text \<open>
  The constructor, on the merged configuration; \<open>created\<close> is the clock reading of the
  audit trail's constructor.
\<close>

definition new_MissionControl :: "host \<Rightarrow> GovernanceConfig \<Rightarrow> int \<Rightarrow> MissionControl" where
  "new_MissionControl h cfg created =
     \<lparr>mc_config = cfg,
      mc_auditTrail = new_AuditTrail h cfg created,
      mc_enforcementEngine = new_EnforcementEngine cfg,
      mc_approvalWorkflow = new_ApprovalWorkflow cfg DEFAULT_WORKFLOW_CONFIG,
      mc_activeContexts = []\<rparr>"

definition MissionControl_registerApprover ::
  "MissionControl \<Rightarrow> ApproverIdentity \<Rightarrow> error + MissionControl" where
  "MissionControl_registerApprover mc approver =
     (case registerApprover (mc_approvalWorkflow mc) approver of
        Inl err \<Rightarrow> Inl err
      | Inr wfl' \<Rightarrow> Inr (mc\<lparr>mc_approvalWorkflow := wfl'\<rparr>))"

text \<open>The host's truthiness, which \<open>a || b\<close> tests.\<close>

fun truthy :: "jsval \<Rightarrow> bool" where
  "truthy JUndefined = False"
| "truthy JNull = False"
| "truthy (JBool b) = b"
| "truthy (JNum n) = (n \<noteq> 0)"
| "truthy (JStr s) = (s \<noteq> [])"
| "truthy (JArr _) = True"
| "truthy (JObj _) = True"

definition reasonOr :: "string option \<Rightarrow> string \<Rightarrow> string" where
  "reasonOr reason dflt = (case reason of None \<Rightarrow> dflt | Some r \<Rightarrow> if r = [] then dflt else r)"

text \<open>
  What a call of \<open>execute\<close> comes to: the success tuple, the pending reference, or an
  exception. Next to it the model returns the events emitted, the arguments the executor
  was called with (none when it was not invoked) and the state after the call. An executor
  is a function from the payload to its result or to the message of what it threw.
\<close>

datatype outcome =
    Result jsval ChainEntry
  | ApprovalPending string
  | Thrown error

record exec_result =
  xr_outcome :: outcome
  xr_events :: "GovernanceEvent list"
  xr_executorCalls :: "jsval list"
  xr_state :: MissionControl

text \<open>The action request \<open>execute\<close> creates first.\<close>

definition newActionRequest :: "env \<Rightarrow> ActionType \<Rightarrow> AgentIdentity \<Rightarrow> jsval \<Rightarrow> ActionRequest" where
  "newActionRequest e actionType agentIdentity payload =
     \<lparr>rq_id = uuid_action e, rq_actionType = actionType, rq_agentId = ag_id agentIdentity,
      rq_timestamp = dateNow e, rq_payload = payload, rq_signature = None,
      rq_correlationId = Some (uuid_correlation e)\<rparr>"

definition execute ::
  "host \<Rightarrow> env \<Rightarrow> MissionControl \<Rightarrow> ActionType \<Rightarrow> AgentIdentity \<Rightarrow> jsval \<Rightarrow>
   (jsval \<Rightarrow> string + jsval) \<Rightarrow> exec_result" where
  "execute h e mc actionType agentIdentity payload executor =
     (let actionRequest = newActionRequest e actionType agentIdentity payload
      in case preExecute h e (mc_enforcementEngine mc) actionRequest agentIdentity of
           Inl err \<Rightarrow>
             \<lparr>xr_outcome = Thrown err, xr_events = [], xr_executorCalls = [], xr_state = mc\<rparr>
         | Inr (preResult, evs, eng') \<Rightarrow>
             (let mc1 = mc\<lparr>mc_enforcementEngine := eng'\<rparr>;
                  er = pre_enforcementResult preResult
              in if \<not> pre_proceed preResult
                   then (if er_requiresApproval er \<and>
                            map_option ap_status (er_approvalRequest er) = Some PENDING
                           then (case submitForApproval h e (mc_approvalWorkflow mc1)
                                        actionRequest agentIdentity of
                                   Inl err \<Rightarrow>
                                     \<lparr>xr_outcome = Thrown err, xr_events = evs,
                                      xr_executorCalls = [], xr_state = mc1\<rparr>
                                 | Inr (approval, evs2, wfl') \<Rightarrow>
                                     \<lparr>xr_outcome = ApprovalPending (ap_id approval),
                                      xr_events = evs @ evs2, xr_executorCalls = [],
                                      xr_state = mc1\<lparr>mc_approvalWorkflow := wfl'\<rparr>\<rparr>)
                         else (let actionResult =
                                     \<lparr>rs_success = False, rs_requestId = rq_id actionRequest,
                                      rs_timestamp = dateNow e, rs_output = None,
                                      rs_error = Some (reasonOr (er_reason er) ''Enforcement rejected''),
                                      rs_executedBy = None\<rparr>;
                                   (auditEntry, evs2, trail') =
                                     AuditTrail_record h (uuid_entry e) (dateNow e) (mc_auditTrail mc1)
                                       actionRequest actionResult agentIdentity (er_approvalRequest er)
                               in \<lparr>xr_outcome = Thrown (MissionControlError
                                       (reasonOr (er_reason er) ''Action rejected by governance'')
                                       ''ENFORCEMENT_REJECTED'' (Some auditEntry)),
                                    xr_events = evs @ evs2, xr_executorCalls = [],
                                    xr_state = mc1\<lparr>mc_auditTrail := trail'\<rparr>\<rparr>))
                 else (let context =
                             \<lparr>ec_actionId = rq_id actionRequest, ec_agentId = ag_id agentIdentity,
                              ec_startedAt = dateNow e,
                              ec_clearanceLevel = er_requiredClearance er,
                              ec_approvalId = map_option ap_id (er_approvalRequest er)\<rparr>;
                           mc2 = mc1\<lparr>mc_activeContexts :=
                                       AList.update (rq_id actionRequest) context
                                         (mc_activeContexts mc1)\<rparr>;
                           argument = (case pre_modifiedPayload preResult of
                                         None \<Rightarrow> payload
                                       | Some p \<Rightarrow> if truthy p then p else payload);
                           ran = executor argument;
                           mc3 = mc2\<lparr>mc_activeContexts :=
                                       AList.delete (rq_id actionRequest) (mc_activeContexts mc2)\<rparr>;
                           executionError = (case ran of Inl message \<Rightarrow> Some message | Inr _ \<Rightarrow> None);
                           executionResult = (case ran of Inl _ \<Rightarrow> JUndefined | Inr v \<Rightarrow> v);
                           actionResult =
                             \<lparr>rs_success = (executionError = None),
                              rs_requestId = rq_id actionRequest, rs_timestamp = dateNow e,
                              rs_output = (case ran of Inl _ \<Rightarrow> None | Inr v \<Rightarrow> Some v),
                              rs_error = executionError,
                              rs_executedBy = Some (ag_id agentIdentity)\<rparr>;
                           (postResult, evs2, eng'') =
                             postExecute e (mc_enforcementEngine mc3) actionRequest
                               executionResult executionError;
                           (auditEntry, evs3, trail') =
                             AuditTrail_record h (uuid_entry e) (dateNow e) (mc_auditTrail mc3)
                               actionRequest actionResult agentIdentity (er_approvalRequest er)
                       in \<lparr>xr_outcome =
                              (case ran of
                                 Inl message \<Rightarrow>
                                   Thrown (MissionControlError message ''EXECUTION_FAILED''
                                             (Some auditEntry))
                               | Inr v \<Rightarrow> Result v auditEntry),
                            xr_events = evs @ evs2 @ evs3, xr_executorCalls = [argument],
                            xr_state = mc3\<lparr>mc_enforcementEngine := eng'',
                                           mc_auditTrail := trail'\<rparr>\<rparr>)))"

definition approveAction ::
  "int \<Rightarrow> MissionControl \<Rightarrow> string \<Rightarrow> string \<Rightarrow> string option \<Rightarrow> string option \<Rightarrow>
   error + (ApprovalRequest \<times> GovernanceEvent list \<times> MissionControl)" where
  "approveAction now mc approvalId approverId signature reason =
     (case approve now (mc_approvalWorkflow mc) approvalId approverId signature reason of
        Inl err \<Rightarrow> Inl err
      | Inr (approval, evs, wfl') \<Rightarrow> Inr (approval, evs, mc\<lparr>mc_approvalWorkflow := wfl'\<rparr>))"

definition rejectAction ::
  "int \<Rightarrow> MissionControl \<Rightarrow> string \<Rightarrow> string \<Rightarrow> string \<Rightarrow> string option \<Rightarrow>
   error + (ApprovalRequest \<times> GovernanceEvent list \<times> MissionControl)" where
  "rejectAction now mc approvalId approverId rejectionReason signature =
     (case reject now (mc_approvalWorkflow mc) approvalId approverId rejectionReason signature of
        Inl err \<Rightarrow> Inl err
      | Inr (approval, evs, wfl') \<Rightarrow> Inr (approval, evs, mc\<lparr>mc_approvalWorkflow := wfl'\<rparr>))"

definition MissionControl_getPendingApprovals :: "MissionControl \<Rightarrow> ApprovalRequest list" where
  "MissionControl_getPendingApprovals mc = getPendingApprovals (mc_approvalWorkflow mc)"

definition verifyAuditIntegrity :: "host \<Rightarrow> int \<Rightarrow> MissionControl \<Rightarrow> bool \<times> GovernanceEvent list" where
  "verifyAuditIntegrity h now mc = verifyChain h now (mc_auditTrail mc)"

text \<open>
  The loop of \<open>emergencyStop\<close> over the snapshot of pending approvals: the first
  \<open>revoke\<close> that throws ends the call, and what earlier iterations did stays done.
\<close>

fun revokeEach ::
  "int \<Rightarrow> string \<Rightarrow> ApprovalWorkflow \<Rightarrow> ApprovalRequest list \<Rightarrow>
   error option \<times> GovernanceEvent list \<times> ApprovalWorkflow" where
  "revokeEach now reason wfl [] = (None, [], wfl)"
| "revokeEach now reason wfl (approval # rest) =
     (case revoke now wfl (ap_id approval) ''EMERGENCY_STOP'' reason of
        Inl err \<Rightarrow> (Some err, [], wfl)
      | Inr (_, evs, wfl') \<Rightarrow>
          (case revokeEach now reason wfl' rest of
             (r, evs', wfl'') \<Rightarrow> (r, evs @ evs', wfl'')))"

definition emergencyStop ::
  "int \<Rightarrow> MissionControl \<Rightarrow> string \<Rightarrow> error option \<times> GovernanceEvent list \<times> MissionControl" where
  "emergencyStop now mc reason =
     (let pending = getPendingApprovals (mc_approvalWorkflow mc)
      in case revokeEach now reason (mc_approvalWorkflow mc) pending of
           (Some err, evs, wfl') \<Rightarrow> (Some err, evs, mc\<lparr>mc_approvalWorkflow := wfl'\<rparr>)
         | (None, evs, wfl') \<Rightarrow>
             (None,
              evs @ [\<lparr>ev_type = ACTION_REJECTED, ev_timestamp = now,
                      ev_payload = JObj [(''reason'', JStr reason),
                                         (''revokedApprovals'', JNum (int (length pending)))],
                      ev_severity = critical\<rparr>],
              mc\<lparr>mc_approvalWorkflow := wfl'\<rparr>))"

text \<open>
  The public operations that change state, and the engine's timeout callback, as one type,
  and a run of them from a state. An operation that throws leaves the state its call
  reached.
\<close>

datatype api_call =
    Execute env ActionType AgentIdentity jsval "jsval \<Rightarrow> string + jsval"
  | RegisterApprover ApproverIdentity
  | ApproveAction int string string "string option" "string option"
  | RejectAction int string string string "string option"
  | EmergencyStop int string
  | ApprovalTimeoutFires int string

fun api_step :: "host \<Rightarrow> MissionControl \<Rightarrow> api_call \<Rightarrow> MissionControl" where
  "api_step h mc (Execute e actionType agentIdentity payload executor) =
     xr_state (execute h e mc actionType agentIdentity payload executor)"
| "api_step h mc (RegisterApprover approver) =
     (case MissionControl_registerApprover mc approver of Inl _ \<Rightarrow> mc | Inr mc' \<Rightarrow> mc')"
| "api_step h mc (ApproveAction now approvalId approverId signature reason) =
     (case approveAction now mc approvalId approverId signature reason of
        Inl _ \<Rightarrow> mc | Inr (_, _, mc') \<Rightarrow> mc')"
| "api_step h mc (RejectAction now approvalId approverId rejectionReason signature) =
     (case rejectAction now mc approvalId approverId rejectionReason signature of
        Inl _ \<Rightarrow> mc | Inr (_, _, mc') \<Rightarrow> mc')"
| "api_step h mc (EmergencyStop now reason) = snd (snd (emergencyStop now mc reason))"
| "api_step h mc (ApprovalTimeoutFires now approvalId) =
     mc\<lparr>mc_enforcementEngine := snd (approvalTimeout now (mc_enforcementEngine mc) approvalId)\<rparr>"

fun api_run :: "host \<Rightarrow> MissionControl \<Rightarrow> api_call list \<Rightarrow> MissionControl" where
  "api_run h mc [] = mc"
| "api_run h mc (c # cs) = api_run h (api_step h mc c) cs"

text \<open>The action-request ids the \<open>execute\<close> calls of a run draw.\<close>

fun actionIds :: "api_call list \<Rightarrow> string list" where
  "actionIds [] = []"
| "actionIds (Execute e _ _ _ _ # cs) = uuid_action e # actionIds cs"
| "actionIds (_ # cs) = actionIds cs"

section \<open>Notions used in the proofs\<close>

text \<open>The three checks \<open>verifyChain\<close> makes of one entry, as a predicate.\<close>

definition entry_ok :: "host \<Rightarrow> GovernanceConfig \<Rightarrow> string \<Rightarrow> ChainEntry \<Rightarrow> bool" where
  "entry_ok h cfg prev e =
     (ae_previousHash e = prev \<and> ae_entryHash e = computeEntryHash h cfg e \<and>
      ae_immutableProof e = computeImmutableProof h cfg e)"

text \<open>The hash the next entry must name as its previous one.\<close>

definition anchor :: "string \<Rightarrow> ChainEntry list \<Rightarrow> string" where
  "anchor prev es = (if es = [] then prev else ae_entryHash (last es))"

definition chain_inv :: "host \<Rightarrow> AuditTrail \<Rightarrow> bool" where
  "chain_inv h t =
     (verifyLoop h (at_config t) 0 (at_genesisHash t) (at_entries t) = (True, []) \<and>
      at_sequenceCounter t = int (length (at_entries t)) \<and>
      map ae_sequenceNumber (at_entries t) = map int [1..<Suc (length (at_entries t))])"

section \<open>A concrete host and concrete inputs\<close>

text \<open>
  A stand-in host on which the model can be run: the digests tag their input, the
  serialiser writes the fields of a flat object in order, a date is printed as its
  number. The general theorems hold of every host; this one serves the concrete runs.
\<close>

fun demo_atom :: "jsval \<Rightarrow> string" where
  "demo_atom (JStr s) = s"
| "demo_atom (JNum n) = show_int n"
| "demo_atom (JBool b) = (if b then ''true'' else ''false'')"
| "demo_atom JNull = ''null''"
| "demo_atom _ = ''_''"

fun demo_stringify :: "jsval \<Rightarrow> string" where
  "demo_stringify (JObj kvs) = concat (map (\<lambda>kv. fst kv @ '':'' @ demo_atom (snd kv) @ '';'') kvs)"
| "demo_stringify v = demo_atom v"

definition demo_host :: host where
  "demo_host =
     \<lparr>SHA256 = (\<lambda>s. ''#'' @ s), SHA384 = (\<lambda>s. ''##'' @ s), SHA512 = (\<lambda>s. ''###'' @ s),
      JSON_stringify = demo_stringify, toISOString = show_int\<rparr>"

definition agent_a :: AgentIdentity where
  "agent_a = \<lparr>ag_id = ''a'', ag_name = ''A'', ag_clearanceLevel = L0, ag_sessionId = ''s'',
              ag_publicKey = None\<rparr>"

definition agent_b :: AgentIdentity where
  "agent_b = \<lparr>ag_id = ''b'', ag_name = ''B'', ag_clearanceLevel = L2, ag_sessionId = ''s'',
              ag_publicKey = None\<rparr>"

definition demo_request :: "string \<Rightarrow> ActionRequest" where
  "demo_request i =
     \<lparr>rq_id = i, rq_actionType = QUERY_STATUS, rq_agentId = ''a'', rq_timestamp = 5,
      rq_payload = JObj [], rq_signature = None, rq_correlationId = None\<rparr>"

definition demo_result :: "string \<Rightarrow> ActionResult" where
  "demo_result i =
     \<lparr>rs_success = True, rs_requestId = i, rs_timestamp = 6, rs_output = Some (JStr ''ok''),
      rs_error = None, rs_executedBy = Some ''a''\<rparr>"

definition demo_call :: "string \<Rightarrow> string \<Rightarrow> record_call" where
  "demo_call u i =
     \<lparr>rc_uuid = u, rc_now = 7, rc_actionRequest = demo_request i,
      rc_actionResult = demo_result i, rc_agentIdentity = agent_a, rc_approvalRequest = None\<rparr>"

definition two_entries :: AuditTrail where
  "two_entries =
     record_all demo_host (new_AuditTrail demo_host DEFAULT_GOVERNANCE_CONFIG 1)
       [demo_call ''e1'' ''r1'', demo_call ''e2'' ''r2'']"

text \<open>The fields of an entry that the two hashes and the chain checks read.\<close>

definition hashedFields ::
  "ChainEntry \<Rightarrow> string \<times> int \<times> int \<times> string \<times> bool \<times> string \<times> string \<times> string \<times> string" where
  "hashedFields e =
     (ae_id e, ae_timestamp e, ae_sequenceNumber e, rq_id (ae_actionRequest e),
      rs_success (ae_actionResult e), ag_id (ae_agentIdentity e),
      ae_previousHash e, ae_entryHash e, ae_immutableProof e)"

text \<open>Two out-of-band mutations of an entry: of a field no hash covers, and of the entry hash.\<close>

definition forgePayload :: "ChainEntry \<Rightarrow> ChainEntry" where
  "forgePayload e = e\<lparr>ae_actionRequest := (ae_actionRequest e)\<lparr>rq_payload := JStr ''forged''\<rparr>\<rparr>"

definition forgeEntryHash :: "ChainEntry \<Rightarrow> ChainEntry" where
  "forgeEntryHash e = e\<lparr>ae_entryHash := ''0000''\<rparr>"

text \<open>
  The rank of a clearance level, in the specification's words: the levels are totally
  ordered, \<open>L0 < L1 < L2\<close>, and compared by rank.
\<close>

definition rank :: "ClearanceLevel \<Rightarrow> nat" where
  "rank l = (case l of L0 \<Rightarrow> 0 | L1 \<Rightarrow> 1 | L2 \<Rightarrow> 2)"

text \<open>A payload that is neither an object nor an array.\<close>

definition isScalar :: "jsval \<Rightarrow> bool" where
  "isScalar p = (case p of JObj _ \<Rightarrow> False | JArr _ \<Rightarrow> False | _ \<Rightarrow> True)"

text \<open>An object's properties without the three keys \<open>sanitizePayload\<close> deletes.\<close>

definition stripped :: "(string \<times> jsval) list \<Rightarrow> (string \<times> jsval) list" where
  "stripped kvs = filter (\<lambda>kv. fst kv \<notin> {''__proto__'', ''constructor'', ''prototype''}) kvs"

text \<open>Two draws of the surroundings, a new orchestrator, payloads and an executor.\<close>

definition env1 :: env where
  "env1 = \<lparr>uuid_action = ''u1'', uuid_correlation = ''c1'', uuid_entry = ''e1'', dateNow = 10,
           random_engine = ''x1'', random_workflow = ''y1''\<rparr>"

definition env2 :: env where
  "env2 = \<lparr>uuid_action = ''u2'', uuid_correlation = ''c2'', uuid_entry = ''e2'', dateNow = 20,
           random_engine = ''x2'', random_workflow = ''y2''\<rparr>"

definition mc0 :: MissionControl where
  "mc0 = new_MissionControl demo_host DEFAULT_GOVERNANCE_CONFIG 1"

definition poisoned :: jsval where
  "poisoned = JObj [(''__proto__'', JObj [(''polluted'', JBool True)]), (''valid'', JStr ''data''),
                    (''constructor'', JNull)]"

definition echo :: "jsval \<Rightarrow> string + jsval" where
  "echo p = Inr p"

definition agent_c :: AgentIdentity where
  "agent_c = \<lparr>ag_id = ''c'', ag_name = ''C'', ag_clearanceLevel = L1, ag_sessionId = ''s'',
              ag_publicKey = None\<rparr>"


text \<open>The affirmative decisions recorded for an approval request.\<close>

definition affirmative :: "ApprovalWorkflow \<Rightarrow> string \<Rightarrow> nat" where
  "affirmative wfl approvalId = length (filter ad_approved (getDecisions wfl approvalId))"

text \<open>
  Two approvers, and a workflow with both registered and one request submitted, under a
  unanimous configuration with \<open>minApprovers = 2\<close> and under the default one.
\<close>

definition approver1 :: ApproverIdentity where
  "approver1 = \<lparr>av_id = ''ap1'', av_name = ''P1'', av_clearanceLevel = L2, av_email = None,
                av_publicKey = None\<rparr>"

definition approver2 :: ApproverIdentity where
  "approver2 = \<lparr>av_id = ''ap2'', av_name = ''P2'', av_clearanceLevel = L2, av_email = None,
                av_publicKey = None\<rparr>"

definition submitted :: "ApprovalWorkflowConfig \<Rightarrow> ApprovalWorkflow" where
  "submitted wcfg =
     (let w0 = new_ApprovalWorkflow DEFAULT_GOVERNANCE_CONFIG wcfg;
          w1 = (case registerApprover w0 approver1 of Inl _ \<Rightarrow> w0 | Inr w \<Rightarrow> w);
          w2 = (case registerApprover w1 approver2 of Inl _ \<Rightarrow> w1 | Inr w \<Rightarrow> w)
      in case submitForApproval demo_host env1 w2 (demo_request ''r1'') agent_b of
           Inl _ \<Rightarrow> w2 | Inr (_, _, w) \<Rightarrow> w)"

definition dual :: ApprovalWorkflowConfig where
  "dual = DEFAULT_WORKFLOW_CONFIG\<lparr>minApprovers := 2, requireUnanimous := True\<rparr>"

definition after_first :: "ApprovalWorkflowConfig \<Rightarrow> ApprovalWorkflow" where
  "after_first wcfg =
     (case approve 11 (submitted wcfg) ''L2-10-y1'' ''ap1'' None None of
        Inl _ \<Rightarrow> submitted wcfg | Inr (_, _, w) \<Rightarrow> w)"

text \<open>The code of a thrown \<open>MissionControlError\<close>, and what an audit entry says of approval.\<close>

fun thrownCode :: "outcome \<Rightarrow> string option" where
  "thrownCode (Thrown (MissionControlError message code auditEntry)) = Some code"
| "thrownCode _ = None"

definition entryApproval :: "ChainEntry \<Rightarrow> ClearanceLevel \<times> bool \<times> ApprovalStatus option" where
  "entryApproval entry =
     (ACTION_CLEARANCE_MAP (rq_actionType (ae_actionRequest entry)),
      rs_success (ae_actionResult entry),
      map_option ap_status (ae_approvalRequest entry))"

definition eventKind :: "GovernanceEvent \<Rightarrow> GovernanceEventType \<times> Severity" where
  "eventKind ev = (ev_type ev, ev_severity ev)"

definition insufficientReason :: "ClearanceLevel \<Rightarrow> ClearanceLevel \<Rightarrow> string" where
  "insufficientReason required actual =
     ''Insufficient clearance: requires '' @ ClearanceLevel_str required @
     '', agent has '' @ ClearanceLevel_str actual"

text \<open>The reason \<open>preExecute\<close> gives when its idempotency check stops a request.\<close>

definition alreadyExecuted :: string where
  "alreadyExecuted = ''Action already executed (idempotency check)''"

text \<open>
  Scenario S3: an approver is registered, an agent of clearance L2 asks for
  \<open>DESTROY_RESOURCE\<close>, the approver approves the request the first call returned, and
  the agent asks again.
\<close>

definition resource_payload :: jsval where
  "resource_payload = JObj [(''resourceId'', JStr ''r-1'')]"

definition mc_registered :: MissionControl where
  "mc_registered =
     (case MissionControl_registerApprover mc0 approver1 of Inl _ \<Rightarrow> mc0 | Inr mc \<Rightarrow> mc)"

definition first_call :: exec_result where
  "first_call = execute demo_host env1 mc_registered DESTROY_RESOURCE agent_b resource_payload echo"

definition mc_approved :: MissionControl where
  "mc_approved =
     (case approveAction 11 (xr_state first_call) ''L2-10-y1'' ''ap1'' None None of
        Inl _ \<Rightarrow> xr_state first_call
      | Inr (_, _, mc) \<Rightarrow> mc)"

definition second_call :: exec_result where
  "second_call = execute demo_host env2 mc_approved DESTROY_RESOURCE agent_b resource_payload echo"

definition statusOf :: "MissionControl \<Rightarrow> string \<Rightarrow> ApprovalStatus option" where
  "statusOf mc approvalId = map_option ap_status (getApproval (mc_approvalWorkflow mc) approvalId)"

text \<open>
  Scenario S5: two L2 requests are submitted and left pending, then \<open>emergencyStop\<close> is
  called.
\<close>

definition mc_two_pending :: MissionControl where
  "mc_two_pending =
     xr_state (execute demo_host env2 (xr_state first_call) TRANSFER_FUNDS agent_b
                 (JObj [(''amount'', JNum 100)]) echo)"

definition stopped :: "error option \<times> GovernanceEvent list \<times> MissionControl" where
  "stopped = emergencyStop 30 mc_two_pending ''incident''"

text \<open>Further mutations of an entry: of its id, its previous hash and its proof.\<close>

definition forgeId :: "ChainEntry \<Rightarrow> ChainEntry" where
  "forgeId e = e\<lparr>ae_id := ''forged''\<rparr>"

definition forgePreviousHash :: "ChainEntry \<Rightarrow> ChainEntry" where
  "forgePreviousHash e = e\<lparr>ae_previousHash := ''0000''\<rparr>"

definition forgeProof :: "ChainEntry \<Rightarrow> ChainEntry" where
  "forgeProof e = e\<lparr>ae_immutableProof := ''0000''\<rparr>"






section \<open>The audit chain\<close>

declare dec.simps [simp del] hex.simps [simp del]

lemma anchor_simps [simp]:
  "anchor prev [] = prev"
  "anchor prev (es @ [e]) = ae_entryHash e"
  "anchor prev (e # es) = anchor (ae_entryHash e) es"
  by (simp_all add: anchor_def)

lemma verifyLoop_True_iff:
  "verifyLoop h cfg now prev (e # es) = (True, []) \<longleftrightarrow>
     entry_ok h cfg prev e \<and> verifyLoop h cfg now (ae_entryHash e) es = (True, [])"
  by (auto simp: entry_ok_def split: if_splits)

lemma verifyLoop_append:
  "verifyLoop h cfg now prev es = (True, []) \<Longrightarrow>
   verifyLoop h cfg now prev (es @ fs) = verifyLoop h cfg now (anchor prev es) fs"
proof (induction es arbitrary: prev)
  case Nil
  then show ?case by simp
next
  case (Cons e es)
  from Cons.prems have ok: "entry_ok h cfg prev e"
    and rest: "verifyLoop h cfg now (ae_entryHash e) es = (True, [])"
    unfolding verifyLoop_True_iff by simp_all
  from ok have "verifyLoop h cfg now prev ((e # es) @ fs) = verifyLoop h cfg now (ae_entryHash e) (es @ fs)"
    by (simp add: entry_ok_def)
  with Cons.IH [OF rest] show ?case by simp
qed

lemma verifyLoop_prefix:
  "verifyLoop h cfg now prev (es @ fs) = (True, []) \<Longrightarrow> verifyLoop h cfg now prev es = (True, [])"
proof (induction es arbitrary: prev)
  case Nil
  then show ?case by simp
next
  case (Cons e es)
  then show ?case unfolding append_Cons verifyLoop_True_iff by simp
qed

lemma verifyLoop_now:
  "verifyLoop h cfg now prev es = (True, []) \<Longrightarrow> verifyLoop h cfg now' prev es = (True, [])"
proof (induction es arbitrary: prev)
  case Nil
  then show ?case by simp
next
  case (Cons e es)
  then show ?case unfolding verifyLoop_True_iff by simp
qed

lemma verifyLoop_link:
  "verifyLoop h cfg now prev es = (True, []) \<Longrightarrow> i < length es \<Longrightarrow>
   ae_previousHash (es ! i) = (if i = 0 then prev else ae_entryHash (es ! (i - 1)))"
proof (induction es arbitrary: prev i)
  case Nil
  then show ?case by simp
next
  case (Cons e es)
  from Cons.prems have ok: "entry_ok h cfg prev e"
    and rest: "verifyLoop h cfg now (ae_entryHash e) es = (True, [])"
    unfolding verifyLoop_True_iff by simp_all
  show ?case
  proof (cases i)
    case 0
    with ok show ?thesis by (simp add: entry_ok_def)
  next
    case (Suc j)
    with Cons.prems have "j < length es" by simp
    from Cons.IH [OF rest this] Suc show ?thesis by (cases j) simp_all
  qed
qed

lemma record_one_fields:
  "at_config (record_one h t c) = at_config t"
  "at_genesisHash (record_one h t c) = at_genesisHash t"
  "at_sequenceCounter (record_one h t c) = at_sequenceCounter t + 1"
  "length (at_entries (record_one h t c)) = Suc (length (at_entries t))"
  by (simp_all add: record_one_def AuditTrail_record_def Let_def)

lemma record_one_entries:
  "\<exists>e. at_entries (record_one h t c) = at_entries t @ [e] \<and>
       entry_ok h (at_config t) (anchor (at_genesisHash t) (at_entries t)) e \<and>
       ae_sequenceNumber e = at_sequenceCounter t + 1"
  by (simp add: record_one_def AuditTrail_record_def Let_def entry_ok_def
      computeEntryHash_def computeImmutableProof_def anchor_def split: list.splits)

lemma chain_inv_record_one: "chain_inv h t \<Longrightarrow> chain_inv h (record_one h t c)"
proof -
  assume inv: "chain_inv h t"
  obtain e where es: "at_entries (record_one h t c) = at_entries t @ [e]"
    and ok: "entry_ok h (at_config t) (anchor (at_genesisHash t) (at_entries t)) e"
    and sq: "ae_sequenceNumber e = at_sequenceCounter t + 1"
    using record_one_entries by blast
  from inv have v: "verifyLoop h (at_config t) 0 (at_genesisHash t) (at_entries t) = (True, [])"
    and cnt: "at_sequenceCounter t = int (length (at_entries t))"
    and sqs: "map ae_sequenceNumber (at_entries t) = map int [1..<Suc (length (at_entries t))]"
    by (simp_all add: chain_inv_def)
  have "verifyLoop h (at_config t) 0 (at_genesisHash t) (at_entries t @ [e]) = (True, [])"
    using verifyLoop_append [OF v, of "[e]"] ok by (simp add: entry_ok_def)
  moreover have "map ae_sequenceNumber (at_entries t @ [e]) =
      map int [1..<Suc (length (at_entries t @ [e]))]"
    using sqs sq cnt by simp
  ultimately show ?thesis
    using cnt by (simp add: chain_inv_def es record_one_fields)
qed

lemma chain_inv_record_all: "chain_inv h t \<Longrightarrow> chain_inv h (record_all h t cs)"
  by (induction cs arbitrary: t) (simp_all add: chain_inv_record_one)

lemma record_all_fields:
  "at_config (record_all h t cs) = at_config t"
  "at_genesisHash (record_all h t cs) = at_genesisHash t"
  "length (at_entries (record_all h t cs)) = length (at_entries t) + length cs"
  by (induction cs arbitrary: t) (simp_all add: record_one_fields)

lemma chain_inv_new: "chain_inv h (new_AuditTrail h cfg created)"
  by (simp add: chain_inv_def new_AuditTrail_def)

text \<open>
  C3. After any sequence of \<open>record\<close> calls on a new trail, the empty one included,
  \<open>verifyChain\<close> returns true and emits nothing; the sequence numbers are
  1, 2, ..., n; the first entry names the genesis hash as its previous hash and every later
  entry names the entry hash of the entry before it.
\<close>

theorem record_then_verifyChain:
  fixes h cfg created calls now
  defines "t \<equiv> record_all h (new_AuditTrail h cfg created) calls"
  shows "verifyChain h now t = (True, []) \<and>
         map ae_sequenceNumber (at_entries t) = map int [1..<Suc (length calls)] \<and>
         (\<forall>i < length (at_entries t).
            ae_previousHash (at_entries t ! i) =
              (if i = 0 then at_genesisHash t else ae_entryHash (at_entries t ! (i - 1))))"
proof -
  have inv: "chain_inv h t"
    unfolding t_def by (rule chain_inv_record_all [OF chain_inv_new])
  have len: "length (at_entries t) = length calls"
    unfolding t_def by (simp add: record_all_fields new_AuditTrail_def)
  from inv have v0: "verifyLoop h (at_config t) 0 (at_genesisHash t) (at_entries t) = (True, [])"
    by (simp add: chain_inv_def)
  then have v: "verifyLoop h (at_config t) now (at_genesisHash t) (at_entries t) = (True, [])"
    by (rule verifyLoop_now)
  from inv len have sq: "map ae_sequenceNumber (at_entries t) = map int [1..<Suc (length calls)]"
    by (simp add: chain_inv_def)
  show ?thesis
    using v sq verifyLoop_link [OF v] by (simp add: verifyChain_def)
qed

theorem record_then_verifyChain_witness:
  "verifyChain demo_host 9 two_entries = (True, []) \<and>
   map ae_sequenceNumber (at_entries two_entries) = [1, 2] \<and>
   ae_previousHash (at_entries two_entries ! 0) = at_genesisHash two_entries \<and>
   ae_previousHash (at_entries two_entries ! 1) = ae_entryHash (at_entries two_entries ! 0)"
proof -
  have len: "length (at_entries two_entries) = 2"
    by (simp add: two_entries_def record_one_fields new_AuditTrail_def)
  have up: "[1..<3] = [1, 2]"
    by (simp add: upt_rec)
  show ?thesis
    using record_then_verifyChain [of demo_host 9 DEFAULT_GOVERNANCE_CONFIG 1
        "[demo_call ''e1'' ''r1'', demo_call ''e2'' ''r2'']"] len up
    by (simp add: two_entries_def)
qed

lemma anchor_take:
  "k \<le> length es \<Longrightarrow>
   anchor prev (take k es) = (if k = 0 then prev else ae_entryHash (es ! (k - 1)))"
  by (cases k) (auto simp: anchor_def last_conv_nth min_def)

lemma verifyLoop_nth_ok:
  assumes v: "verifyLoop h cfg now prev es = (True, [])" and k: "k < length es"
  shows "entry_ok h cfg (if k = 0 then prev else ae_entryHash (es ! (k - 1))) (es ! k)"
proof -
  have split: "es = take k es @ (es ! k) # drop (Suc k) es"
    using k by (simp add: id_take_nth_drop)
  from v have pre: "verifyLoop h cfg now prev (take k es) = (True, [])"
    using verifyLoop_prefix [of h cfg now prev "take k es" "drop k es"] by simp
  from v split have "verifyLoop h cfg now prev (take k es @ (es ! k) # drop (Suc k) es) = (True, [])"
    by simp
  then have "verifyLoop h cfg now (anchor prev (take k es)) ((es ! k) # drop (Suc k) es) = (True, [])"
    using verifyLoop_append [OF pre] by simp
  then show ?thesis
    unfolding verifyLoop_True_iff using k by (simp add: anchor_take)
qed

lemma verifyLoop_update:
  assumes v: "verifyLoop h cfg now prev es = (True, [])" and k: "k < length es"
  shows "verifyLoop h cfg now prev (es[k := e']) =
         verifyLoop h cfg now (if k = 0 then prev else ae_entryHash (es ! (k - 1)))
           (e' # drop (Suc k) es)"
proof -
  from v have pre: "verifyLoop h cfg now prev (take k es) = (True, [])"
    using verifyLoop_prefix [of h cfg now prev "take k es" "drop k es"] by simp
  have "es[k := e'] = take k es @ e' # drop (Suc k) es"
    using k by (simp add: upd_conv_take_nth_drop)
  then show ?thesis
    using verifyLoop_append [OF pre, of "e' # drop (Suc k) es"] k by (simp add: anchor_take)
qed

lemma computeEntryHash_ignores [simp]:
  "computeEntryHash h cfg (e\<lparr>ae_entryHash := v\<rparr>) = computeEntryHash h cfg e"
  "computeEntryHash h cfg (e\<lparr>ae_immutableProof := v\<rparr>) = computeEntryHash h cfg e"
  "computeImmutableProof h cfg (e\<lparr>ae_immutableProof := v\<rparr>) = computeImmutableProof h cfg e"
  by (simp_all add: computeEntryHash_def computeImmutableProof_def)

lemma tamperEvent_simps [simp]:
  "tamperEvent now (e\<lparr>ae_entryHash := v\<rparr>) r = tamperEvent now e r"
  "tamperEvent now (e\<lparr>ae_immutableProof := v\<rparr>) r = tamperEvent now e r"
  "tamperEvent now (e\<lparr>ae_previousHash := v\<rparr>) r = tamperEvent now e r"
  by (simp_all add: tamperEvent_def)

text \<open>
  C4, as amended. On a trail built by \<open>record\<close> calls, overwriting the entry hash, the
  previous hash or the immutable proof of any stored entry with a different value makes
  \<open>verifyChain\<close> return false and emit exactly one \<open>audit-tamper-detected\<close> event,
  with reason \<open>ENTRY_HASH_MISMATCH\<close>, \<open>PREVIOUS_HASH_MISMATCH\<close> and
  \<open>PROOF_MISMATCH\<close> respectively; so does any mutation that keeps the two stored hashes
  and changes the recomputed entry hash. The hashes cover the entry's id, timestamp,
  sequence number, action-request id, success flag, agent id and previous hash only: a
  mutation that leaves these and the two stored digests as they were goes undetected.
\<close>

theorem tampered_chain_field_detected:
  fixes h cfg created calls now k v f
  defines "t \<equiv> record_all h (new_AuditTrail h cfg created) calls"
  defines "e \<equiv> at_entries t ! k"
  assumes k: "k < length calls"
  shows "(v \<noteq> ae_entryHash e \<longrightarrow>
            verifyChain h now (mutateEntry k (\<lambda>x. x\<lparr>ae_entryHash := v\<rparr>) t) =
              (False, [tamperEvent now e ''ENTRY_HASH_MISMATCH''])) \<and>
         (v \<noteq> ae_previousHash e \<longrightarrow>
            verifyChain h now (mutateEntry k (\<lambda>x. x\<lparr>ae_previousHash := v\<rparr>) t) =
              (False, [tamperEvent now e ''PREVIOUS_HASH_MISMATCH''])) \<and>
         (v \<noteq> ae_immutableProof e \<longrightarrow>
            verifyChain h now (mutateEntry k (\<lambda>x. x\<lparr>ae_immutableProof := v\<rparr>) t) =
              (False, [tamperEvent now e ''PROOF_MISMATCH''])) \<and>
         (ae_previousHash (f e) = ae_previousHash e \<and> ae_entryHash (f e) = ae_entryHash e \<and>
          computeEntryHash h cfg (f e) \<noteq> computeEntryHash h cfg e \<longrightarrow>
            verifyChain h now (mutateEntry k f t) =
              (False, [tamperEvent now (f e) ''ENTRY_HASH_MISMATCH''])) \<and>
         (hashedFields (f e) = hashedFields e \<longrightarrow>
            verifyChain h now (mutateEntry k f t) = (True, []))"
proof -
  have inv: "chain_inv h t"
    unfolding t_def by (rule chain_inv_record_all [OF chain_inv_new])
  have len: "length (at_entries t) = length calls"
    unfolding t_def by (simp add: record_all_fields new_AuditTrail_def)
  have cfg: "at_config t = cfg"
    unfolding t_def by (simp add: record_all_fields new_AuditTrail_def)
  from inv have "verifyLoop h cfg 0 (at_genesisHash t) (at_entries t) = (True, [])"
    by (simp add: chain_inv_def cfg)
  then have v: "verifyLoop h cfg now (at_genesisHash t) (at_entries t) = (True, [])"
    by (rule verifyLoop_now)
  from k len have kl: "k < length (at_entries t)" by simp
  define prev where "prev = (if k = 0 then at_genesisHash t else ae_entryHash (at_entries t ! (k - 1)))"
  have ok: "entry_ok h cfg prev e"
    unfolding prev_def e_def by (rule verifyLoop_nth_ok [OF v kl])
  have upd: "verifyChain h now (mutateEntry k g t) =
             verifyLoop h cfg now prev (g e # drop (Suc k) (at_entries t))" for g
    using verifyLoop_update [OF v kl, of "g e"] kl
    by (simp add: verifyChain_def mutateEntry_def cfg prev_def e_def)
  have rest: "verifyLoop h cfg now (ae_entryHash e) (drop (Suc k) (at_entries t)) = (True, [])"
  proof -
    have pre: "verifyLoop h cfg now (at_genesisHash t) (take (Suc k) (at_entries t)) = (True, [])"
      using v verifyLoop_prefix [of h cfg now "at_genesisHash t" "take (Suc k) (at_entries t)"
          "drop (Suc k) (at_entries t)"]
      by simp
    have "anchor (at_genesisHash t) (take (Suc k) (at_entries t)) = ae_entryHash e"
      using kl by (simp add: anchor_take e_def)
    with verifyLoop_append [OF pre, of "drop (Suc k) (at_entries t)"] v show ?thesis
      by simp
  qed
  have same: "verifyChain h now (mutateEntry k f t) = (True, [])"
    if "hashedFields (f e) = hashedFields e"
  proof -
    from that have eq: "ae_previousHash (f e) = ae_previousHash e" "ae_entryHash (f e) = ae_entryHash e"
      "ae_immutableProof (f e) = ae_immutableProof e"
      "computeEntryHash h cfg (f e) = computeEntryHash h cfg e"
      "computeImmutableProof h cfg (f e) = computeImmutableProof h cfg e"
      by (simp_all add: hashedFields_def computeEntryHash_def computeImmutableProof_def)
    show ?thesis
      using ok rest by (simp add: upd entry_ok_def eq)
  qed
  show ?thesis
    using ok same by (simp add: upd entry_ok_def)
qed

lemmas two_entries_defs = two_entries_def record_one_def AuditTrail_record_def Let_def
  new_AuditTrail_def demo_call_def demo_request_def demo_result_def agent_a_def
  computeEntryHash_def computeImmutableProof_def computeGenesisHash_def AuditTrail_hash_def
  DEFAULT_GOVERNANCE_CONFIG_def demo_host_def

theorem tampered_chain_field_detected_witness:
  "(0::nat) < length [demo_call ''e1'' ''r1'', demo_call ''e2'' ''r2''] \<and>
   ''0000'' \<noteq> ae_entryHash (at_entries two_entries ! 0) \<and>
   verifyChain demo_host 9 (mutateEntry 0 forgeEntryHash two_entries) =
     (False, [tamperEvent 9 (at_entries two_entries ! 0) ''ENTRY_HASH_MISMATCH'']) \<and>
   ''0000'' \<noteq> ae_previousHash (at_entries two_entries ! 1) \<and>
   verifyChain demo_host 9 (mutateEntry 1 forgePreviousHash two_entries) =
     (False, [tamperEvent 9 (at_entries two_entries ! 1) ''PREVIOUS_HASH_MISMATCH'']) \<and>
   ''0000'' \<noteq> ae_immutableProof (at_entries two_entries ! 1) \<and>
   verifyChain demo_host 9 (mutateEntry 1 forgeProof two_entries) =
     (False, [tamperEvent 9 (at_entries two_entries ! 1) ''PROOF_MISMATCH'']) \<and>
   computeEntryHash demo_host DEFAULT_GOVERNANCE_CONFIG (forgeId (at_entries two_entries ! 0)) \<noteq>
     computeEntryHash demo_host DEFAULT_GOVERNANCE_CONFIG (at_entries two_entries ! 0) \<and>
   verifyChain demo_host 9 (mutateEntry 0 forgeId two_entries) =
     (False, [tamperEvent 9 (forgeId (at_entries two_entries ! 0)) ''ENTRY_HASH_MISMATCH'']) \<and>
   hashedFields (forgePayload (at_entries two_entries ! 0)) =
     hashedFields (at_entries two_entries ! 0) \<and>
   verifyChain demo_host 9 (mutateEntry 0 forgePayload two_entries) = (True, [])"
proof -
  let ?calls = "[demo_call ''e1'' ''r1'', demo_call ''e2'' ''r2'']"
  have k0: "(0::nat) < length ?calls" and k1: "(1::nat) < length ?calls"
    by simp_all
  have n1: "''0000'' \<noteq> ae_entryHash (at_entries two_entries ! 0)"
    by (simp add: two_entries_defs)
  have n2: "''0000'' \<noteq> ae_previousHash (at_entries two_entries ! 1)"
    by (simp add: two_entries_defs)
  have n3: "''0000'' \<noteq> ae_immutableProof (at_entries two_entries ! 1)"
    by (simp add: two_entries_defs)
  have n4: "ae_previousHash (forgeId (at_entries two_entries ! 0)) =
        ae_previousHash (at_entries two_entries ! 0) \<and>
      ae_entryHash (forgeId (at_entries two_entries ! 0)) = ae_entryHash (at_entries two_entries ! 0) \<and>
      computeEntryHash demo_host DEFAULT_GOVERNANCE_CONFIG (forgeId (at_entries two_entries ! 0)) \<noteq>
      computeEntryHash demo_host DEFAULT_GOVERNANCE_CONFIG (at_entries two_entries ! 0)"
    by (simp add: two_entries_defs forgeId_def)
  have n5: "hashedFields (forgePayload (at_entries two_entries ! 0)) =
     hashedFields (at_entries two_entries ! 0)"
    by (simp add: hashedFields_def forgePayload_def)
  have f1: "forgeEntryHash = (\<lambda>x. x\<lparr>ae_entryHash := ''0000''\<rparr>)"
    by (rule ext) (simp add: forgeEntryHash_def)
  have f2: "forgePreviousHash = (\<lambda>x. x\<lparr>ae_previousHash := ''0000''\<rparr>)"
    by (rule ext) (simp add: forgePreviousHash_def)
  have f3: "forgeProof = (\<lambda>x. x\<lparr>ae_immutableProof := ''0000''\<rparr>)"
    by (rule ext) (simp add: forgeProof_def)
  note t0 = tampered_chain_field_detected [OF k0, of "''0000''" demo_host DEFAULT_GOVERNANCE_CONFIG 1 9,
      folded two_entries_def]
  note t1 = tampered_chain_field_detected [OF k1, of "''0000''" demo_host DEFAULT_GOVERNANCE_CONFIG 1 9,
      folded two_entries_def]
  have a: "verifyChain demo_host 9 (mutateEntry 0 forgeEntryHash two_entries) =
     (False, [tamperEvent 9 (at_entries two_entries ! 0) ''ENTRY_HASH_MISMATCH''])"
    using t0 [of forgeId] n1 by (simp add: f1)
  have b: "verifyChain demo_host 9 (mutateEntry 1 forgePreviousHash two_entries) =
     (False, [tamperEvent 9 (at_entries two_entries ! 1) ''PREVIOUS_HASH_MISMATCH''])"
    using t1 [of forgeId] n2 by (simp add: f2)
  have c: "verifyChain demo_host 9 (mutateEntry 1 forgeProof two_entries) =
     (False, [tamperEvent 9 (at_entries two_entries ! 1) ''PROOF_MISMATCH''])"
    using t1 [of forgeId] n3 by (simp add: f3)
  have d: "verifyChain demo_host 9 (mutateEntry 0 forgeId two_entries) =
     (False, [tamperEvent 9 (forgeId (at_entries two_entries ! 0)) ''ENTRY_HASH_MISMATCH''])"
    using t0 [of forgeId] n4 by blast
  have e: "verifyChain demo_host 9 (mutateEntry 0 forgePayload two_entries) = (True, [])"
    using t0 [of forgePayload] n5 by blast
  show ?thesis
    using k0 n1 n2 n3 n4 n5 a b c d e by blast
qed

text \<open>
  C4 as stated fails: after two \<open>record\<close> calls, overwriting the payload inside the
  first entry changes the trail, and \<open>verifyChain\<close> still returns true and emits nothing.
\<close>

theorem payload_mutation_undetected:
  "verifyChain demo_host 9 (mutateEntry 0 forgePayload two_entries) = (True, []) \<and>
   mutateEntry 0 forgePayload two_entries \<noteq> two_entries"
  by (simp add: two_entries_def record_one_def AuditTrail_record_def Let_def new_AuditTrail_def
        demo_call_def computeEntryHash_def computeImmutableProof_def AuditTrail_hash_def
        DEFAULT_GOVERNANCE_CONFIG_def demo_host_def verifyChain_def mutateEntry_def
        forgePayload_def demo_request_def computeGenesisHash_def)

section \<open>Clearance and payload sanitization\<close>

lemma hasSufficientClearance_rank:
  "hasSufficientClearance a r \<longleftrightarrow> rank r \<le> rank a"
  by (cases a; cases r) (simp_all add: hasSufficientClearance_def rank_def)

lemma sanitizePayload_JObj: "sanitizePayload (JObj kvs) t = JObj (stripped kvs)"
proof -
  have "fold deleteField dangerousFields kvs = stripped kvs"
    by (induction kvs) (auto simp: deleteField_def dangerousFields_def stripped_def)
  then show ?thesis by (simp add: sanitizePayload_def)
qed

lemma sanitizePayload_scalar: "isScalar p \<Longrightarrow> sanitizePayload p t = p"
  by (cases p) (simp_all add: sanitizePayload_def isScalar_def)

lemma map_of_stripped:
  "map_of (stripped kvs) k =
     (if k \<in> {''__proto__'', ''constructor'', ''prototype''} then None else map_of kvs k)"
  by (induction kvs) (auto simp: stripped_def)

lemma keys_stripped:
  "fst ` set (stripped kvs) = fst ` set kvs - {''__proto__'', ''constructor'', ''prototype''}"
  by (auto simp: stripped_def)

lemma newActionRequest_simps [simp]:
  "rq_id (newActionRequest e K A p) = uuid_action e"
  "rq_actionType (newActionRequest e K A p) = K"
  "rq_payload (newActionRequest e K A p) = p"
  "rq_agentId (newActionRequest e K A p) = ag_id A"
  by (simp_all add: newActionRequest_def)

lemma preExecute_proceed:
  "preExecute h e eng req A = Inr (r, evs, eng') \<Longrightarrow> pre_proceed r \<Longrightarrow>
   pre_modifiedPayload r = Some (sanitizePayload (rq_payload req) (rq_actionType req))"
  by (auto simp: preExecute_def Let_def split: sum.splits prod.splits if_splits option.splits)

lemma preExecute_direct:
  assumes "ACTION_CLEARANCE_MAP (rq_actionType req) \<noteq> L2"
    and "rank (ACTION_CLEARANCE_MAP (rq_actionType req)) \<le> rank (ag_clearanceLevel A)"
    and "rq_id req \<notin> ee_executedActions eng"
  shows "\<exists>r. preExecute h e eng req A = Inr (r, [], eng) \<and> pre_proceed r"
  using assms
  by (simp add: preExecute_def validateAction_def Let_def hasSufficientClearance_rank)

lemma execute_throw:
  "preExecute h e (mc_enforcementEngine mc) (newActionRequest e K A p) A = Inl err \<Longrightarrow>
   execute h e mc K A p ex =
     \<lparr>xr_outcome = Thrown err, xr_events = [], xr_executorCalls = [], xr_state = mc\<rparr>"
  by (simp add: execute_def)

lemma execute_stop:
  "preExecute h e (mc_enforcementEngine mc) (newActionRequest e K A p) A = Inr (r, evs, eng') \<Longrightarrow>
   \<not> pre_proceed r \<Longrightarrow> xr_executorCalls (execute h e mc K A p ex) = []"
  by (simp add: execute_def Let_def AuditTrail_record_def split: sum.splits prod.splits)

lemma execute_go:
  "preExecute h e (mc_enforcementEngine mc) (newActionRequest e K A p) A = Inr (r, evs, eng') \<Longrightarrow>
   pre_proceed r \<Longrightarrow>
   xr_executorCalls (execute h e mc K A p ex) =
     [if truthy (sanitizePayload p K) then sanitizePayload p K else p]"
  by (frule (1) preExecute_proceed)
     (simp add: execute_def Let_def AuditTrail_record_def postExecute_def)

lemma execute_calls:
  "xr_executorCalls (execute h e mc K A p ex) = [] \<or>
   xr_executorCalls (execute h e mc K A p ex) =
     [if truthy (sanitizePayload p K) then sanitizePayload p K else p]"
proof (cases "preExecute h e (mc_enforcementEngine mc) (newActionRequest e K A p) A")
  case (Inl err)
  then show ?thesis by (simp add: execute_throw)
next
  case (Inr x)
  obtain r evs eng' where x: "x = (r, evs, eng')" by (cases x) auto
  show ?thesis
    using execute_stop [OF Inr [unfolded x]] execute_go [OF Inr [unfolded x]]
    by (cases "pre_proceed r") simp_all
qed

text \<open>
  C9. When \<open>preExecute\<close> lets a request proceed, the payload it hands on for an object
  payload is the object with the keys \<open>__proto__\<close>, \<open>constructor\<close> and
  \<open>prototype\<close> removed: its keys are the original keys minus these three, and every
  remaining key has its original value; for a scalar payload it is the payload itself.
  Whenever \<open>execute\<close> invokes the executor, that is the argument.
\<close>

theorem executor_receives_sanitized_payload:
  "(\<forall>r evs eng'. preExecute h e eng req A = Inr (r, evs, eng') \<and> pre_proceed r \<longrightarrow>
      (rq_payload req = JObj kvs \<longrightarrow> pre_modifiedPayload r = Some (JObj (stripped kvs))) \<and>
      (isScalar (rq_payload req) \<longrightarrow> pre_modifiedPayload r = Some (rq_payload req))) \<and>
   (xr_executorCalls (execute h e mc K A (JObj kvs) ex) = [] \<or>
    xr_executorCalls (execute h e mc K A (JObj kvs) ex) = [JObj (stripped kvs)]) \<and>
   fst ` set (stripped kvs) = fst ` set kvs - {''__proto__'', ''constructor'', ''prototype''} \<and>
   (\<forall>k. k \<notin> {''__proto__'', ''constructor'', ''prototype''} \<longrightarrow>
        map_of (stripped kvs) k = map_of kvs k) \<and>
   (isScalar p \<longrightarrow>
      xr_executorCalls (execute h e mc K A p ex) = [] \<or>
      xr_executorCalls (execute h e mc K A p ex) = [p])"
proof -
  have a: "xr_executorCalls (execute h e mc K A (JObj kvs) ex) = [] \<or>
    xr_executorCalls (execute h e mc K A (JObj kvs) ex) = [JObj (stripped kvs)]"
    using execute_calls [of h e mc K A "JObj kvs" ex] by (simp add: sanitizePayload_JObj)
  have b: "isScalar p \<longrightarrow>
      xr_executorCalls (execute h e mc K A p ex) = [] \<or>
      xr_executorCalls (execute h e mc K A p ex) = [p]"
    using execute_calls [of h e mc K A p ex]
    by (cases "truthy p") (auto simp: sanitizePayload_scalar)
  have c: "(rq_payload req = JObj kvs \<longrightarrow> pre_modifiedPayload r = Some (JObj (stripped kvs))) \<and>
      (isScalar (rq_payload req) \<longrightarrow> pre_modifiedPayload r = Some (rq_payload req))"
    if "preExecute h e eng req A = Inr (r, evs, eng')" and "pre_proceed r" for r evs eng'
    using preExecute_proceed [OF that] by (auto simp: sanitizePayload_JObj sanitizePayload_scalar)
  show ?thesis
    using a b c by (simp add: keys_stripped map_of_stripped)
qed

theorem executor_receives_sanitized_payload_witness:
  "(\<exists>r evs eng'.
      preExecute demo_host env1 (mc_enforcementEngine mc0)
        (newActionRequest env1 MODIFY_CONFIG agent_c poisoned) agent_c = Inr (r, evs, eng') \<and>
      pre_proceed r \<and> pre_modifiedPayload r = Some (JObj [(''valid'', JStr ''data'')])) \<and>
   xr_executorCalls (execute demo_host env1 mc0 MODIFY_CONFIG agent_c poisoned echo) =
     [JObj [(''valid'', JStr ''data'')]] \<and>
   map_of (stripped [(''__proto__'', JObj [(''polluted'', JBool True)]), (''valid'', JStr ''data''),
                    (''constructor'', JNull)]) ''valid'' = Some (JStr ''data'') \<and>
   isScalar (JNum 0) \<and>
   xr_executorCalls (execute demo_host env1 mc0 READ_PUBLIC agent_a (JNum 0) echo) = [JNum 0]"
proof -
  let ?kvs = "[(''__proto__'', JObj [(''polluted'', JBool True)]), (''valid'', JStr ''data''),
          (''constructor'', JNull)]"
  let ?req = "newActionRequest env1 MODIFY_CONFIG agent_c poisoned"
  have run1: "xr_executorCalls (execute demo_host env1 mc0 MODIFY_CONFIG agent_c poisoned echo) \<noteq> []"
    by code_simp
  have run2: "xr_executorCalls (execute demo_host env1 mc0 READ_PUBLIC agent_a (JNum 0) echo) \<noteq> []"
    by code_simp
  have sc: "isScalar (JNum 0)"
    by (simp add: isScalar_def)
  have st: "stripped ?kvs = [(''valid'', JStr ''data'')]"
    by (simp add: stripped_def)
  have pl: "rq_payload ?req = JObj ?kvs"
    by (simp add: poisoned_def)
  obtain r where pre: "preExecute demo_host env1 (mc_enforcementEngine mc0) ?req agent_c =
      Inr (r, [], mc_enforcementEngine mc0)" and go: "pre_proceed r"
    using preExecute_direct [of ?req agent_c "mc_enforcementEngine mc0" demo_host env1]
    by (auto simp: agent_c_def rank_def mc0_def new_MissionControl_def new_EnforcementEngine_def)
  note th = executor_receives_sanitized_payload [where h = demo_host and e = env1 and mc = mc0
        and K = MODIFY_CONFIG and A = agent_c and ex = echo and p = "JNum 0"
        and eng = "mc_enforcementEngine mc0" and req = ?req and kvs = ?kvs]
  have mp: "pre_modifiedPayload r = Some (JObj [(''valid'', JStr ''data'')])"
    using th pre go pl st by auto
  have c1: "xr_executorCalls (execute demo_host env1 mc0 MODIFY_CONFIG agent_c poisoned echo) =
     [JObj [(''valid'', JStr ''data'')]]"
    using th run1 st by (auto simp: poisoned_def)
  have c2: "xr_executorCalls (execute demo_host env1 mc0 READ_PUBLIC agent_a (JNum 0) echo) = [JNum 0]"
    using executor_receives_sanitized_payload [where h = demo_host and e = env1 and mc = mc0
        and K = READ_PUBLIC and A = agent_a and ex = echo and p = "JNum 0"
        and eng = "mc_enforcementEngine mc0"
        and req = "newActionRequest env1 READ_PUBLIC agent_a (JNum 0)" and kvs = "[]"]
      run2 sc
    by auto
  have m: "map_of (stripped ?kvs) ''valid'' = Some (JStr ''data'')"
    by (simp add: st)
  show ?thesis
    using pre go mp c1 c2 m sc by blast
qed

section \<open>Idempotency\<close>


text \<open>
  For an L2 action with an undefined payload, \<open>preExecute\<close> throws: the evidence hash
  of the approval request reads the length of \<open>JSON.stringify(undefined)\<close>.
\<close>

lemma preExecute_undefined_payload:
  assumes "ACTION_CLEARANCE_MAP (rq_actionType req) = L2" and "ag_clearanceLevel A = L2"
    and "rq_payload req = JUndefined"
  shows "preExecute h e eng req A =
           Inl (TypeError ''Cannot read properties of undefined (reading 'length')'')"
  using assms
  by (simp add: preExecute_def validateAction_def Let_def hasSufficientClearance_rank rank_def
      createApprovalRequest_def computePayloadHash_def hashOfStringified_def)






section \<open>Approval threshold\<close>

lemma getDecisions_update [simp]:
  "getDecisions (wfl\<lparr>wf_approvalDecisions := AList.update k ds (wf_approvalDecisions wfl)\<rparr>) k = ds"
  by (simp add: getDecisions_def update_conv')

lemma getDecisions_pending [simp]:
  "getDecisions (wfl\<lparr>wf_pendingApprovals := x\<rparr>) k = getDecisions wfl k"
  by (simp add: getDecisions_def)

text \<open>No other operation of the workflow leaves a request approved.\<close>

lemma reject_status:
  "reject now wfl approvalId approverId rejectionReason signature = Inr (approval, evs, wfl') \<Longrightarrow>
   ap_status approval = REJECTED \<and> getApproval wfl' approvalId = Some approval \<and>
   (\<forall>j. j \<noteq> approvalId \<longrightarrow> getApproval wfl' j = getApproval wfl j)"
  by (auto simp: reject_def getApproval_def Let_def update_conv'
      split: option.splits if_splits)

lemma revoke_status:
  "revoke now wfl approvalId revokedBy reason = Inr (approval, evs, wfl') \<Longrightarrow>
   ap_status approval = REVOKED \<and> getApproval wfl' approvalId = Some approval \<and>
   (\<forall>j. j \<noteq> approvalId \<longrightarrow> getApproval wfl' j = getApproval wfl j)"
  by (auto simp: revoke_def getApproval_def Let_def update_conv'
      split: option.splits if_splits)

lemma submitForApproval_status:
  "submitForApproval h e wfl req A = Inr (approval, evs, wfl') \<Longrightarrow>
   ap_status approval = PENDING \<and> getApproval wfl' (ap_id approval) = Some approval \<and>
   affirmative wfl' (ap_id approval) = 0 \<and>
   (\<forall>j. j \<noteq> ap_id approval \<longrightarrow> getApproval wfl' j = getApproval wfl j)"
  by (auto simp: submitForApproval_def getApproval_def Let_def update_conv' affirmative_def
      getDecisions_def split: sum.splits)

text \<open>
  C7. A call of \<open>approve\<close> that returns found the request pending, recorded exactly one
  further affirmative decision, and left the request approved or pending. With
  \<open>requireUnanimous\<close> the request is approved after the call exactly when the number of
  affirmative decisions now equals the number of chosen approvers; without it, exactly when
  that number has reached \<open>minApprovers\<close>.
\<close>

theorem approve_transitions_at_threshold:
  assumes "approve now wfl approvalId approverId signature reason = Inr (approval, evs, wfl')"
  shows "(\<exists>before. getApproval wfl approvalId = Some before \<and> ap_status before = PENDING \<and>
                   ap_approvers approval = ap_approvers before) \<and>
         getApproval wfl' approvalId = Some approval \<and>
         affirmative wfl' approvalId = Suc (affirmative wfl approvalId) \<and>
         (ap_status approval = APPROVED \<or> ap_status approval = PENDING) \<and>
         (ap_status approval = APPROVED \<longleftrightarrow>
            (if requireUnanimous (wf_workflowConfig wfl)
               then affirmative wfl' approvalId = length (ap_approvers approval)
             else int (affirmative wfl' approvalId) \<ge> minApprovers (wf_workflowConfig wfl)))"
proof -
  let ?ds = "getDecisions wfl approvalId"
  obtain before where b: "map_of (wf_pendingApprovals wfl) approvalId = Some before"
    using assms by (cases "map_of (wf_pendingApprovals wfl) approvalId") (simp_all add: approve_def)
  have st: "ap_status before = PENDING"
    using assms b by (cases "ap_status before = PENDING") (simp_all add: approve_def)
  have mem: "approverId \<in> set (ap_approvers before)"
    using assms b st
    by (cases "approverId \<in> set (ap_approvers before)") (simp_all add: approve_def)
  obtain approver where r: "map_of (wf_approvedApprovers wfl) approverId = Some approver"
    using assms b st mem
    by (cases "map_of (wf_approvedApprovers wfl) approverId") (simp_all add: approve_def)
  have nf: "find (\<lambda>d. ad_approverId d = approverId) ?ds = None"
    using assms b st mem r
    by (cases "find (\<lambda>d. ad_approverId d = approverId) ?ds") (simp_all add: approve_def Let_def)
  define decision where "decision = \<lparr>ad_approverId = approverId, ad_approved = True,
      ad_timestamp = now, ad_signature = signature, ad_reason = reason\<rparr>"
  define wf1 where "wf1 = wfl\<lparr>wf_approvalDecisions :=
      AList.update approvalId (?ds @ [decision]) (wf_approvalDecisions wfl)\<rparr>"
  define met where "met = (if requireUnanimous (wf_workflowConfig wfl)
      then Suc (affirmative wfl approvalId) = length (ap_approvers before)
      else int (Suc (affirmative wfl approvalId)) \<ge> minApprovers (wf_workflowConfig wfl))"
  have aff1: "affirmative wf1 approvalId = Suc (affirmative wfl approvalId)"
    by (simp add: affirmative_def wf1_def decision_def)
  have gd: "getDecisions wf1 approvalId = ?ds @ [decision]"
    by (simp add: wf1_def)
  have pa: "map_of (wf_pendingApprovals wf1) approvalId = Some before"
    by (simp add: wf1_def b)
  have wc: "wf_workflowConfig wf1 = wf_workflowConfig wfl"
    by (simp add: wf1_def)
  have thr: "checkApprovalThreshold wf1 approvalId = Inr met"
    by (simp add: checkApprovalThreshold_def Let_def gd pa wc met_def affirmative_def decision_def)
  note thr' = thr [unfolded wf1_def decision_def]
  show ?thesis
  proof (cases met)
    case True
    have "approve now wfl approvalId approverId signature reason =
      Inr (before\<lparr>ap_status := APPROVED, ap_approvedBy := Some approverId,
                  ap_approvedAt := Some now\<rparr>,
           [\<lparr>ev_type = ACTION_APPROVED, ev_timestamp = now,
             ev_payload = JObj
               [(''approvalId'', JStr approvalId),
                (''actionId'', JStr (ap_actionRequestId before)),
                (''approvedBy'', JStr approverId),
                (''decisionCount'', JNum (int (length (?ds @ [decision]))))],
             ev_severity = info\<rparr>],
           wf1\<lparr>wf_pendingApprovals :=
                 AList.update approvalId
                   (before\<lparr>ap_status := APPROVED, ap_approvedBy := Some approverId,
                            ap_approvedAt := Some now\<rparr>)
                   (wf_pendingApprovals wf1)\<rparr>)"
      unfolding wf1_def decision_def
      using True by (simp add: approve_def b st mem r nf Let_def thr')
    with assms
    have ap: "approval = before\<lparr>ap_status := APPROVED, ap_approvedBy := Some approverId,
                       ap_approvedAt := Some now\<rparr>"
      and w: "wfl' = wf1\<lparr>wf_pendingApprovals :=
                      AList.update approvalId approval (wf_pendingApprovals wf1)\<rparr>"
      by auto
    have s1: "ap_status approval = APPROVED" and s2: "ap_approvers approval = ap_approvers before"
      using ap by simp_all
    have s3: "getApproval wfl' approvalId = Some approval"
      by (simp add: getApproval_def w update_conv')
    have s4: "affirmative wfl' approvalId = Suc (affirmative wfl approvalId)"
      using aff1 by (simp add: w affirmative_def)
    have s5: "\<exists>before. getApproval wfl approvalId = Some before \<and> ap_status before = PENDING \<and>
                   ap_approvers approval = ap_approvers before"
      using b st s2 by (simp add: getApproval_def)
    have s6: "ap_status approval = APPROVED \<longleftrightarrow>
            (if requireUnanimous (wf_workflowConfig wfl)
               then affirmative wfl' approvalId = length (ap_approvers approval)
             else int (affirmative wfl' approvalId) \<ge> minApprovers (wf_workflowConfig wfl))"
      using True s1 s2 s4 by (auto simp: met_def split: if_splits)
    show ?thesis
      using s1 s3 s4 s5 s6 by blast
  next
    case False
    have "approve now wfl approvalId approverId signature reason = Inr (before, [], wf1)"
      unfolding wf1_def decision_def
      using False by (simp add: approve_def b st mem r nf Let_def thr')
    with assms have ap: "approval = before" and w: "wfl' = wf1"
      by auto
    have s1: "ap_status approval = PENDING" and s2: "ap_approvers approval = ap_approvers before"
      using ap st by simp_all
    have s3: "getApproval wfl' approvalId = Some approval"
      by (simp add: getApproval_def w wf1_def b ap)
    have s4: "affirmative wfl' approvalId = Suc (affirmative wfl approvalId)"
      using aff1 by (simp add: w)
    have s5: "\<exists>before. getApproval wfl approvalId = Some before \<and> ap_status before = PENDING \<and>
                   ap_approvers approval = ap_approvers before"
      using b st s2 by (simp add: getApproval_def)
    have s6: "ap_status approval = APPROVED \<longleftrightarrow>
            (if requireUnanimous (wf_workflowConfig wfl)
               then affirmative wfl' approvalId = length (ap_approvers approval)
             else int (affirmative wfl' approvalId) \<ge> minApprovers (wf_workflowConfig wfl))"
      using False s1 s2 s4 by (auto simp: met_def split: if_splits)
    show ?thesis
      using s1 s3 s4 s5 s6 by blast
  qed
qed

lemmas workflow_run_defs = submitted_def after_first_def registerApprover_def
  submitForApproval_def selectApprovers_def slice0_def generateEvidenceHash_def hashPayload_def
  hashOfStringified_def generateApprovalId_def show_int_def dec.simps digit_char_def
  new_ApprovalWorkflow_def approver1_def approver2_def dual_def DEFAULT_WORKFLOW_CONFIG_def
  env1_def demo_request_def agent_b_def Let_def DEFAULT_GOVERNANCE_CONFIG_def approve_def
  checkApprovalThreshold_def getDecisions_def getApproval_def affirmative_def

theorem approve_transitions_at_threshold_witness:
  "(\<exists>a evs w. approve 11 (submitted dual) ''L2-10-y1'' ''ap1'' None None = Inr (a, evs, w) \<and>
      ap_status a = PENDING \<and> affirmative w ''L2-10-y1'' = 1 \<and> length (ap_approvers a) = 2) \<and>
   (\<exists>a evs w. approve 12 (after_first dual) ''L2-10-y1'' ''ap2'' None None = Inr (a, evs, w) \<and>
      ap_status a = APPROVED \<and> affirmative w ''L2-10-y1'' = 2 \<and> length (ap_approvers a) = 2) \<and>
   (\<exists>a evs w. approve 11 (submitted DEFAULT_WORKFLOW_CONFIG) ''L2-10-y1'' ''ap1'' None None =
        Inr (a, evs, w) \<and>
      ap_status a = APPROVED \<and> affirmative w ''L2-10-y1'' = 1)"
proof -
  have r1: "\<not> isl (approve 11 (submitted dual) ''L2-10-y1'' ''ap1'' None None)"
    by (simp add: workflow_run_defs)
  have u1: "requireUnanimous (wf_workflowConfig (submitted dual))"
    by (simp add: workflow_run_defs)
  have c1: "affirmative (submitted dual) ''L2-10-y1'' = 0"
    by (simp add: workflow_run_defs)
  have n1: "map_option (\<lambda>a. length (ap_approvers a)) (getApproval (submitted dual) ''L2-10-y1'') = Some 2"
    by (simp add: workflow_run_defs)
  obtain a1 evs1 w1 where
    e1: "approve 11 (submitted dual) ''L2-10-y1'' ''ap1'' None None = Inr (a1, evs1, w1)"
    using r1 by (cases "approve 11 (submitted dual) ''L2-10-y1'' ''ap1'' None None") auto
  have p1: "ap_status a1 = PENDING \<and> affirmative w1 ''L2-10-y1'' = 1 \<and> length (ap_approvers a1) = 2"
    using approve_transitions_at_threshold [OF e1] u1 c1 n1 by auto
  have r2: "\<not> isl (approve 12 (after_first dual) ''L2-10-y1'' ''ap2'' None None)"
    by (simp add: workflow_run_defs)
  have u2: "requireUnanimous (wf_workflowConfig (after_first dual))"
    by (simp add: workflow_run_defs)
  have c2: "affirmative (after_first dual) ''L2-10-y1'' = 1"
    by (simp add: workflow_run_defs)
  have n2: "map_option (\<lambda>a. length (ap_approvers a)) (getApproval (after_first dual) ''L2-10-y1'') = Some 2"
    by (simp add: workflow_run_defs)
  obtain a2 evs2 w2 where
    e2: "approve 12 (after_first dual) ''L2-10-y1'' ''ap2'' None None = Inr (a2, evs2, w2)"
    using r2 by (cases "approve 12 (after_first dual) ''L2-10-y1'' ''ap2'' None None") auto
  have p2: "ap_status a2 = APPROVED \<and> affirmative w2 ''L2-10-y1'' = 2 \<and> length (ap_approvers a2) = 2"
    using approve_transitions_at_threshold [OF e2] u2 c2 n2 by auto
  have r3: "\<not> isl (approve 11 (submitted DEFAULT_WORKFLOW_CONFIG) ''L2-10-y1'' ''ap1'' None None)"
    by (simp add: workflow_run_defs)
  have u3: "\<not> requireUnanimous (wf_workflowConfig (submitted DEFAULT_WORKFLOW_CONFIG))"
    by (simp add: workflow_run_defs)
  have m3: "minApprovers (wf_workflowConfig (submitted DEFAULT_WORKFLOW_CONFIG)) = 1"
    by (simp add: workflow_run_defs)
  have c3: "affirmative (submitted DEFAULT_WORKFLOW_CONFIG) ''L2-10-y1'' = 0"
    by (simp add: workflow_run_defs)
  obtain a3 evs3 w3 where
    e3: "approve 11 (submitted DEFAULT_WORKFLOW_CONFIG) ''L2-10-y1'' ''ap1'' None None =
           Inr (a3, evs3, w3)"
    using r3
    by (cases "approve 11 (submitted DEFAULT_WORKFLOW_CONFIG) ''L2-10-y1'' ''ap1'' None None") auto
  have p3: "ap_status a3 = APPROVED \<and> affirmative w3 ''L2-10-y1'' = 1"
    using approve_transitions_at_threshold [OF e3] u3 m3 c3 by auto
  show ?thesis
    using e1 p1 e2 p2 e3 p3 by blast
qed

section \<open>Clearance rejections\<close>

lemma preExecute_insufficient:
  assumes "rank (ag_clearanceLevel A) < rank (ACTION_CLEARANCE_MAP (rq_actionType req))"
  shows "preExecute h e eng req A =
    Inr (\<lparr>pre_proceed = False,
          pre_enforcementResult =
            \<lparr>er_allowed = False, er_requiredClearance = ACTION_CLEARANCE_MAP (rq_actionType req),
             er_agentClearance = ag_clearanceLevel A, er_requiresApproval = False,
             er_approvalRequest = None,
             er_reason = Some (insufficientReason (ACTION_CLEARANCE_MAP (rq_actionType req))
                                 (ag_clearanceLevel A))\<rparr>,
          pre_intercepted = Some True, pre_modifiedPayload = None,
          pre_reason = Some (insufficientReason (ACTION_CLEARANCE_MAP (rq_actionType req))
                               (ag_clearanceLevel A))\<rparr>,
         [\<lparr>ev_type = CLEARANCE_VIOLATION, ev_timestamp = dateNow e,
           ev_payload = JObj
             [(''actionId'', JStr (rq_id req)),
              (''actionType'', JStr (ActionType_str (rq_actionType req))),
              (''agentId'', JStr (ag_id A)),
              (''required'', JStr (ClearanceLevel_str (ACTION_CLEARANCE_MAP (rq_actionType req)))),
              (''actual'', JStr (ClearanceLevel_str (ag_clearanceLevel A)))],
           ev_severity = critical\<rparr>],
         eng)"
  using assms
  by (simp add: preExecute_def validateAction_def Let_def hasSufficientClearance_rank
      insufficientReason_def)

lemma insufficientReason_nonempty [simp]: "insufficientReason r a \<noteq> []"
  by (simp add: insufficientReason_def)

lemma execute_insufficient:
  assumes "rank (ag_clearanceLevel A) < rank (ACTION_CLEARANCE_MAP K)"
  shows "\<exists>entry.
     execute h e mc K A p ex =
       \<lparr>xr_outcome = Thrown (MissionControlError
            (insufficientReason (ACTION_CLEARANCE_MAP K) (ag_clearanceLevel A))
            ''ENFORCEMENT_REJECTED'' (Some entry)),
        xr_events =
          [\<lparr>ev_type = CLEARANCE_VIOLATION, ev_timestamp = dateNow e,
            ev_payload = JObj
              [(''actionId'', JStr (uuid_action e)),
               (''actionType'', JStr (ActionType_str K)),
               (''agentId'', JStr (ag_id A)),
               (''required'', JStr (ClearanceLevel_str (ACTION_CLEARANCE_MAP K))),
               (''actual'', JStr (ClearanceLevel_str (ag_clearanceLevel A)))],
            ev_severity = critical\<rparr>,
           \<lparr>ev_type = ACTION_FAILED, ev_timestamp = dateNow e,
            ev_payload = JObj [(''entryId'', JStr (uuid_entry e)),
                               (''actionType'', JStr (ActionType_str K))],
            ev_severity = warning\<rparr>],
        xr_executorCalls = [],
        xr_state = mc\<lparr>mc_auditTrail := (mc_auditTrail mc)
                         \<lparr>at_entries := at_entries (mc_auditTrail mc) @ [entry],
                          at_sequenceCounter := at_sequenceCounter (mc_auditTrail mc) + 1\<rparr>\<rparr>\<rparr> \<and>
     ae_id entry = uuid_entry e \<and>
     ae_actionRequest entry = newActionRequest e K A p \<and>
     ae_agentIdentity entry = A \<and>
     ae_approvalRequest entry = None \<and>
     ae_actionResult entry =
       \<lparr>rs_success = False, rs_requestId = uuid_action e, rs_timestamp = dateNow e,
        rs_output = None,
        rs_error = Some (insufficientReason (ACTION_CLEARANCE_MAP K) (ag_clearanceLevel A)),
        rs_executedBy = None\<rparr>"
proof -
  have "rank (ag_clearanceLevel A) < rank (ACTION_CLEARANCE_MAP (rq_actionType (newActionRequest e K A p)))"
    using assms by simp
  note pre = preExecute_insufficient [OF this, of h e "mc_enforcementEngine mc", simplified]
  show ?thesis
    by (simp add: execute_def pre Let_def reasonOr_def AuditTrail_record_def)
qed

text \<open>
  C5, as amended. For an agent whose rank is below the rank the action kind requires,
  \<open>execute\<close> does not invoke the executor, appends exactly one audit entry, whose result
  has \<open>success = false\<close> and the error \<open>Insufficient clearance: requires ..., agent
  has ...\<close>, emits one \<open>clearance-violation\<close> event, of critical severity (and then the
  trail's \<open>action-failed\<close> warning), and throws a \<open>MissionControlError\<close> with that
  message and the code \<open>ENFORCEMENT_REJECTED\<close>, carrying the entry.
\<close>

theorem insufficient_clearance_rejected:
  assumes "rank (ag_clearanceLevel A) < rank (ACTION_CLEARANCE_MAP K)"
  shows "\<exists>entry.
     xr_executorCalls (execute h e mc K A p ex) = [] \<and>
     at_entries (mc_auditTrail (xr_state (execute h e mc K A p ex))) =
       at_entries (mc_auditTrail mc) @ [entry] \<and>
     ae_actionRequest entry = newActionRequest e K A p \<and>
     rs_success (ae_actionResult entry) = False \<and>
     rs_error (ae_actionResult entry) =
       Some (''Insufficient clearance: requires '' @ ClearanceLevel_str (ACTION_CLEARANCE_MAP K) @
             '', agent has '' @ ClearanceLevel_str (ag_clearanceLevel A)) \<and>
     map eventKind (xr_events (execute h e mc K A p ex)) =
       [(CLEARANCE_VIOLATION, critical), (ACTION_FAILED, warning)] \<and>
     xr_outcome (execute h e mc K A p ex) =
       Thrown (MissionControlError
         (''Insufficient clearance: requires '' @ ClearanceLevel_str (ACTION_CLEARANCE_MAP K) @
          '', agent has '' @ ClearanceLevel_str (ag_clearanceLevel A))
         ''ENFORCEMENT_REJECTED'' (Some entry))"
proof -
  obtain entry where x: "execute h e mc K A p ex =
       \<lparr>xr_outcome = Thrown (MissionControlError
            (insufficientReason (ACTION_CLEARANCE_MAP K) (ag_clearanceLevel A))
            ''ENFORCEMENT_REJECTED'' (Some entry)),
        xr_events =
          [\<lparr>ev_type = CLEARANCE_VIOLATION, ev_timestamp = dateNow e,
            ev_payload = JObj
              [(''actionId'', JStr (uuid_action e)),
               (''actionType'', JStr (ActionType_str K)),
               (''agentId'', JStr (ag_id A)),
               (''required'', JStr (ClearanceLevel_str (ACTION_CLEARANCE_MAP K))),
               (''actual'', JStr (ClearanceLevel_str (ag_clearanceLevel A)))],
            ev_severity = critical\<rparr>,
           \<lparr>ev_type = ACTION_FAILED, ev_timestamp = dateNow e,
            ev_payload = JObj [(''entryId'', JStr (uuid_entry e)),
                               (''actionType'', JStr (ActionType_str K))],
            ev_severity = warning\<rparr>],
        xr_executorCalls = [],
        xr_state = mc\<lparr>mc_auditTrail := (mc_auditTrail mc)
                         \<lparr>at_entries := at_entries (mc_auditTrail mc) @ [entry],
                          at_sequenceCounter := at_sequenceCounter (mc_auditTrail mc) + 1\<rparr>\<rparr>\<rparr>"
    and rq: "ae_actionRequest entry = newActionRequest e K A p"
    and rs: "ae_actionResult entry =
       \<lparr>rs_success = False, rs_requestId = uuid_action e, rs_timestamp = dateNow e,
        rs_output = None,
        rs_error = Some (insufficientReason (ACTION_CLEARANCE_MAP K) (ag_clearanceLevel A)),
        rs_executedBy = None\<rparr>"
    using execute_insufficient [OF assms, of h e mc p ex] by blast
  show ?thesis
    by (rule exI [of _ entry]) (simp add: x rq rs eventKind_def insufficientReason_def)
qed

theorem insufficient_clearance_rejected_witness:
  "rank (ag_clearanceLevel agent_a) < rank (ACTION_CLEARANCE_MAP MODIFY_CONFIG) \<and>
   xr_executorCalls (execute demo_host env1 mc0 MODIFY_CONFIG agent_a (JObj []) echo) = [] \<and>
   (\<exists>entry. at_entries (mc_auditTrail (xr_state
       (execute demo_host env1 mc0 MODIFY_CONFIG agent_a (JObj []) echo))) = [entry] \<and>
      rs_success (ae_actionResult entry) = False \<and>
      rs_error (ae_actionResult entry) = Some ''Insufficient clearance: requires L1, agent has L0'') \<and>
   map eventKind (xr_events (execute demo_host env1 mc0 MODIFY_CONFIG agent_a (JObj []) echo)) =
     [(CLEARANCE_VIOLATION, critical), (ACTION_FAILED, warning)] \<and>
   thrownCode (xr_outcome (execute demo_host env1 mc0 MODIFY_CONFIG agent_a (JObj []) echo)) =
     Some ''ENFORCEMENT_REJECTED''"
proof -
  have a: "rank (ag_clearanceLevel agent_a) < rank (ACTION_CLEARANCE_MAP MODIFY_CONFIG)"
    by (simp add: agent_a_def rank_def)
  have b: "at_entries (mc_auditTrail mc0) = []"
    by (simp add: mc0_def new_MissionControl_def new_AuditTrail_def)
  show ?thesis
    using insufficient_clearance_rejected [OF a, of demo_host env1 mc0 "JObj []" echo] a b
    by (auto simp: agent_a_def)
qed

text \<open>
  C5 as stated fails in its last part: what \<open>execute\<close> throws on a clearance rejection
  carries the code \<open>ENFORCEMENT_REJECTED\<close>, the one of every enforcement rejection; no
  error of the source is a clearance violation of its own.
\<close>

theorem clearance_rejection_code:
  "thrownCode (xr_outcome (execute demo_host env1 mc0 MODIFY_CONFIG agent_a (JObj []) echo)) =
     Some ''ENFORCEMENT_REJECTED'' \<and>
   thrownCode (xr_outcome (execute demo_host env1 mc0 MODIFY_CONFIG agent_a (JObj []) echo)) \<noteq>
     Some ''CLEARANCE_VIOLATION''"
  by code_simp

text \<open>
  C6, as amended. When the agent's clearance is below L2, \<open>execute\<close> on an L2 action
  kind appends one audit entry for that action; the entry carries no approval request and
  records \<open>success = false\<close>.
\<close>

theorem l2_rejection_entry_has_no_approval:
  assumes "ACTION_CLEARANCE_MAP K = L2" and "ag_clearanceLevel A \<noteq> L2"
  shows "\<exists>entry.
     at_entries (mc_auditTrail (xr_state (execute h e mc K A p ex))) =
       at_entries (mc_auditTrail mc) @ [entry] \<and>
     ACTION_CLEARANCE_MAP (rq_actionType (ae_actionRequest entry)) = L2 \<and>
     ae_approvalRequest entry = None \<and>
     rs_success (ae_actionResult entry) = False"
proof -
  have "rank (ag_clearanceLevel A) < rank (ACTION_CLEARANCE_MAP K)"
    using assms by (cases "ag_clearanceLevel A") (simp_all add: rank_def)
  from execute_insufficient [OF this, of h e mc p ex]
  obtain entry where x: "at_entries (mc_auditTrail (xr_state (execute h e mc K A p ex))) =
       at_entries (mc_auditTrail mc) @ [entry]"
    and rq: "ae_actionRequest entry = newActionRequest e K A p"
    and ap: "ae_approvalRequest entry = None"
    and rs: "rs_success (ae_actionResult entry) = False"
    by auto
  show ?thesis
    by (rule exI [of _ entry]) (simp add: x rq ap rs assms)
qed

theorem l2_rejection_entry_has_no_approval_witness:
  "ACTION_CLEARANCE_MAP DESTROY_RESOURCE = L2 \<and> ag_clearanceLevel agent_a \<noteq> L2 \<and>
   (\<exists>entry.
     at_entries (mc_auditTrail (xr_state
       (execute demo_host env1 mc0 DESTROY_RESOURCE agent_a (JObj []) echo))) = [entry] \<and>
     ae_approvalRequest entry = None)"
proof -
  have a: "ACTION_CLEARANCE_MAP DESTROY_RESOURCE = L2"
    by simp
  have b: "ag_clearanceLevel agent_a \<noteq> L2"
    by (simp add: agent_a_def)
  have c: "at_entries (mc_auditTrail mc0) = []"
    by (simp add: mc0_def new_MissionControl_def new_AuditTrail_def)
  show ?thesis
    using l2_rejection_entry_has_no_approval [OF a b, of demo_host env1 mc0 "JObj []" echo] b c
    by auto
qed

text \<open>
  C6 as stated fails: an agent of clearance L0 attempts \<open>DESTROY_RESOURCE\<close> on a new
  orchestrator; the trail then holds one entry, of an L2 action kind, without an approval
  request.
\<close>

theorem l2_entry_without_approval:
  "map entryApproval (at_entries (mc_auditTrail (xr_state
       (execute demo_host env1 mc0 DESTROY_RESOURCE agent_a (JObj []) echo)))) =
     [(L2, False, None)]"
  by code_simp

section \<open>Fresh action-request ids\<close>

lemma validateAction_result:
  assumes "validateAction h e eng req A = Inr (er, evs, eng')"
  shows "ee_executedActions eng' = ee_executedActions eng"
    and "\<not> er_allowed er \<Longrightarrow>
         er_reason er = Some (insufficientReason (ACTION_CLEARANCE_MAP (rq_actionType req))
                                (ag_clearanceLevel A))"
  using assms
  by (auto simp: validateAction_def Let_def createApprovalRequest_def insufficientReason_def
      split: if_splits sum.splits)

lemma preExecute_executed:
  assumes "preExecute h e eng req A = Inr (r, evs, eng')"
  shows "ee_executedActions eng' = ee_executedActions eng"
proof (cases "validateAction h e eng req A")
  case (Inl err)
  with assms show ?thesis by (simp add: preExecute_def)
next
  case (Inr x)
  obtain er evs0 eng0 where x: "x = (er, evs0, eng0)" by (cases x) auto
  from assms Inr x have "eng' = eng0"
    by (auto simp: preExecute_def Let_def split: if_splits option.splits)
  with validateAction_result(1) [OF Inr [unfolded x]] show ?thesis by simp
qed

lemma preExecute_alreadyExecuted:
  assumes "preExecute h e eng req A = Inr (r, evs, eng')"
    and "pre_reason r = Some alreadyExecuted"
  shows "rq_id req \<in> ee_executedActions eng"
proof (cases "validateAction h e eng req A")
  case (Inl err)
  with assms show ?thesis by (simp add: preExecute_def)
next
  case (Inr x)
  obtain er evs0 eng0 where x: "x = (er, evs0, eng0)" by (cases x) auto
  note v = Inr [unfolded x]
  have ex: "ee_executedActions eng0 = ee_executedActions eng"
    by (rule validateAction_result(1) [OF v])
  show ?thesis
  proof (cases "er_allowed er")
    case False
    from validateAction_result(2) [OF v False] assms False show ?thesis
      by (auto simp: preExecute_def v Let_def alreadyExecuted_def insufficientReason_def)
  next
    case True
    with assms ex show ?thesis
      by (auto simp: preExecute_def v Let_def alreadyExecuted_def
          split: if_splits option.splits)
  qed
qed

lemma execute_engine_stop:
  "preExecute h e (mc_enforcementEngine mc) (newActionRequest e K A p) A = Inr (r, evs, eng') \<Longrightarrow>
   \<not> pre_proceed r \<Longrightarrow> mc_enforcementEngine (xr_state (execute h e mc K A p ex)) = eng'"
  by (simp add: execute_def Let_def AuditTrail_record_def split: sum.splits prod.splits)

lemma execute_engine_go:
  "preExecute h e (mc_enforcementEngine mc) (newActionRequest e K A p) A = Inr (r, evs, eng') \<Longrightarrow>
   pre_proceed r \<Longrightarrow>
   ee_executedActions (mc_enforcementEngine (xr_state (execute h e mc K A p ex))) =
     insert (uuid_action e) (ee_executedActions eng')"
  by (simp add: execute_def Let_def AuditTrail_record_def postExecute_def)

lemma execute_executed:
  "ee_executedActions (mc_enforcementEngine (xr_state (execute h e mc K A p ex))) \<subseteq>
   insert (uuid_action e) (ee_executedActions (mc_enforcementEngine mc))"
proof (cases "preExecute h e (mc_enforcementEngine mc) (newActionRequest e K A p) A")
  case (Inl err)
  then show ?thesis by (auto simp: execute_throw)
next
  case (Inr x)
  obtain r evs eng' where x: "x = (r, evs, eng')" by (cases x) auto
  note pre = Inr [unfolded x]
  show ?thesis
    using execute_engine_stop [OF pre, of ex] execute_engine_go [OF pre, of ex]
      preExecute_executed [OF pre]
    by (cases "pre_proceed r") auto
qed

lemma api_step_executed:
  "ee_executedActions (mc_enforcementEngine (api_step h mc c)) \<subseteq>
   ee_executedActions (mc_enforcementEngine mc) \<union> set (actionIds [c])"
proof (cases c)
  case (Execute e K A p ex)
  then show ?thesis using execute_executed [of h e mc K A p ex] by auto
next
  case (RegisterApprover a)
  then show ?thesis
    by (auto simp: MissionControl_registerApprover_def split: sum.splits)
next
  case (ApproveAction now i a s r)
  then show ?thesis
    by (auto simp: approveAction_def split: sum.splits prod.splits)
next
  case (RejectAction now i a r s)
  then show ?thesis
    by (auto simp: rejectAction_def split: sum.splits prod.splits)
next
  case (EmergencyStop now r)
  then show ?thesis
    by (auto simp: emergencyStop_def Let_def split: prod.splits option.splits)
next
  case (ApprovalTimeoutFires now i)
  then show ?thesis
    by (auto simp: approvalTimeout_def split: option.splits)
qed

lemma actionIds_Cons: "set (actionIds (c # cs)) = set (actionIds [c]) \<union> set (actionIds cs)"
  by (cases c) simp_all

lemma api_run_executed:
  "ee_executedActions (mc_enforcementEngine (api_run h mc cs)) \<subseteq>
   ee_executedActions (mc_enforcementEngine mc) \<union> set (actionIds cs)"
proof (induction cs arbitrary: mc)
  case Nil
  then show ?case by simp
next
  case (Cons c cs)
  have "ee_executedActions (mc_enforcementEngine (api_run h (api_step h mc c) cs)) \<subseteq>
        ee_executedActions (mc_enforcementEngine (api_step h mc c)) \<union> set (actionIds cs)"
    by (rule Cons.IH)
  with api_step_executed [of h mc c] show ?case
    unfolding api_run.simps actionIds_Cons [of c cs] by blast
qed

text \<open>
  C10. Each \<open>execute\<close> draws its action-request id from the generator. When the id of a
  call is none of the ids drawn by the calls before it, in any run of the public operations
  from a new orchestrator, the id is not in the engine's set of executed ids, \<open>preExecute\<close>
  does not stop the request with the idempotency reason, and for an L0 or L1 action by an
  agent of sufficient clearance the executor is invoked, whatever was executed before, the
  same call included.
\<close>

theorem fresh_id_reaches_executor:
  fixes h cfg created calls e K A p ex
  defines "mc \<equiv> api_run h (new_MissionControl h cfg created) calls"
  assumes fresh: "uuid_action e \<notin> set (actionIds calls)"
  shows "uuid_action e \<notin> ee_executedActions (mc_enforcementEngine mc) \<and>
         (\<forall>r evs eng'.
            preExecute h e (mc_enforcementEngine mc) (newActionRequest e K A p) A = Inr (r, evs, eng')
            \<longrightarrow> pre_reason r \<noteq> Some ''Action already executed (idempotency check)'') \<and>
         (ACTION_CLEARANCE_MAP K \<noteq> L2 \<and> rank (ACTION_CLEARANCE_MAP K) \<le> rank (ag_clearanceLevel A)
            \<longrightarrow> xr_executorCalls (execute h e mc K A p ex) =
                  [if truthy (sanitizePayload p K) then sanitizePayload p K else p])"
proof -
  have "ee_executedActions (mc_enforcementEngine mc) \<subseteq> set (actionIds calls)"
    unfolding mc_def
    using api_run_executed [of h "new_MissionControl h cfg created" calls]
    by (simp add: new_MissionControl_def new_EnforcementEngine_def)
  with fresh have a: "uuid_action e \<notin> ee_executedActions (mc_enforcementEngine mc)"
    by blast
  have b: "pre_reason r \<noteq> Some ''Action already executed (idempotency check)''"
    if "preExecute h e (mc_enforcementEngine mc) (newActionRequest e K A p) A = Inr (r, evs, eng')"
    for r evs eng'
    using preExecute_alreadyExecuted [OF that] a by (auto simp: alreadyExecuted_def)
  have c: "xr_executorCalls (execute h e mc K A p ex) =
                  [if truthy (sanitizePayload p K) then sanitizePayload p K else p]"
    if k1: "ACTION_CLEARANCE_MAP K \<noteq> L2"
      and k2: "rank (ACTION_CLEARANCE_MAP K) \<le> rank (ag_clearanceLevel A)"
  proof -
    obtain r where pre: "preExecute h e (mc_enforcementEngine mc) (newActionRequest e K A p) A =
        Inr (r, [], mc_enforcementEngine mc)" and go: "pre_proceed r"
      using preExecute_direct [of "newActionRequest e K A p" A "mc_enforcementEngine mc" h e] k1 k2 a
      by auto
    show ?thesis by (rule execute_go [OF pre go])
  qed
  show ?thesis using a b c by blast
qed

theorem fresh_id_reaches_executor_witness:
  "uuid_action env2 \<notin> set (actionIds [Execute env1 READ_PUBLIC agent_a (JObj []) echo]) \<and>
   xr_executorCalls (execute demo_host env1 mc0 READ_PUBLIC agent_a (JObj []) echo) = [JObj []] \<and>
   uuid_action env1 \<in> ee_executedActions (mc_enforcementEngine
       (api_run demo_host mc0 [Execute env1 READ_PUBLIC agent_a (JObj []) echo])) \<and>
   uuid_action env2 \<notin> ee_executedActions (mc_enforcementEngine
       (api_run demo_host mc0 [Execute env1 READ_PUBLIC agent_a (JObj []) echo])) \<and>
   (\<exists>r evs eng'.
      preExecute demo_host env2
        (mc_enforcementEngine (api_run demo_host mc0 [Execute env1 READ_PUBLIC agent_a (JObj []) echo]))
        (newActionRequest env2 READ_PUBLIC agent_a (JObj [])) agent_a = Inr (r, evs, eng') \<and>
      pre_proceed r \<and>
      pre_reason r \<noteq> Some ''Action already executed (idempotency check)'') \<and>
   xr_executorCalls (execute demo_host env2
       (api_run demo_host mc0 [Execute env1 READ_PUBLIC agent_a (JObj []) echo])
       READ_PUBLIC agent_a (JObj []) echo) = [JObj []]"
proof -
  let ?calls = "[Execute env1 READ_PUBLIC agent_a (JObj []) echo]"
  let ?mc = "api_run demo_host mc0 ?calls"
  have a: "uuid_action env2 \<notin> set (actionIds ?calls)"
    by (simp add: env1_def env2_def)
  have b: "uuid_action env1 \<notin> set (actionIds [])"
    by simp
  have k: "ACTION_CLEARANCE_MAP READ_PUBLIC \<noteq> L2"
    "rank (ACTION_CLEARANCE_MAP READ_PUBLIC) \<le> rank (ag_clearanceLevel agent_a)"
    by (simp_all add: rank_def)
  have s: "sanitizePayload (JObj []) READ_PUBLIC = JObj []"
    by (simp add: sanitizePayload_JObj stripped_def)
  note t1 = fresh_id_reaches_executor [OF b, of demo_host DEFAULT_GOVERNANCE_CONFIG 1
        READ_PUBLIC agent_a "JObj []" echo, folded mc0_def]
  note t2 = fresh_id_reaches_executor [OF a, of demo_host DEFAULT_GOVERNANCE_CONFIG 1
        READ_PUBLIC agent_a "JObj []" echo, folded mc0_def]
  have c1: "xr_executorCalls (execute demo_host env1 mc0 READ_PUBLIC agent_a (JObj []) echo) = [JObj []]"
    using t1 k s by simp
  have n2: "uuid_action env2 \<notin> ee_executedActions (mc_enforcementEngine ?mc)"
    using t2 by blast
  have i1: "uuid_action env1 \<in> ee_executedActions (mc_enforcementEngine ?mc)"
  proof -
    obtain r where pre: "preExecute demo_host env1 (mc_enforcementEngine mc0)
        (newActionRequest env1 READ_PUBLIC agent_a (JObj [])) agent_a =
          Inr (r, [], mc_enforcementEngine mc0)" and go: "pre_proceed r"
      using preExecute_direct [of "newActionRequest env1 READ_PUBLIC agent_a (JObj [])" agent_a
          "mc_enforcementEngine mc0" demo_host env1] k
      by (auto simp: mc0_def new_MissionControl_def new_EnforcementEngine_def)
    show ?thesis
      using execute_engine_go [OF pre go, of echo] by simp
  qed
  obtain r where pre: "preExecute demo_host env2 (mc_enforcementEngine ?mc)
        (newActionRequest env2 READ_PUBLIC agent_a (JObj [])) agent_a =
          Inr (r, [], mc_enforcementEngine ?mc)" and go: "pre_proceed r"
    using preExecute_direct [of "newActionRequest env2 READ_PUBLIC agent_a (JObj [])" agent_a
        "mc_enforcementEngine ?mc" demo_host env2] k n2
    by auto
  have nr: "pre_reason r \<noteq> Some ''Action already executed (idempotency check)''"
    using t2 pre by blast
  have c2: "xr_executorCalls (execute demo_host env2 ?mc READ_PUBLIC agent_a (JObj []) echo) = [JObj []]"
    using t2 k s by simp
  show ?thesis
    using a c1 i1 n2 pre go nr c2 by blast
qed

section \<open>L2 requests\<close>

lemma validateAction_L2:
  assumes "ACTION_CLEARANCE_MAP (rq_actionType req) = L2" and "ag_clearanceLevel A = L2"
    and "rq_payload req \<noteq> JUndefined"
  shows "\<exists>er evs eng'. validateAction h e eng req A = Inr (er, evs, eng') \<and>
           er_allowed er \<and> er_requiresApproval er \<and>
           map_option ap_status (er_approvalRequest er) = Some PENDING \<and>
           map eventKind evs = [(ACTION_REQUESTED, info)]"
  using assms
  by (simp add: validateAction_def Let_def hasSufficientClearance_rank rank_def
      createApprovalRequest_def computePayloadHash_def hashOfStringified_def eventKind_def)

lemma preExecute_L2:
  assumes "ACTION_CLEARANCE_MAP (rq_actionType req) = L2" and "ag_clearanceLevel A = L2"
    and "rq_payload req \<noteq> JUndefined"
  shows "\<exists>r evs eng'. preExecute h e eng req A = Inr (r, evs, eng') \<and>
           \<not> pre_proceed r \<and> er_requiresApproval (pre_enforcementResult r) \<and>
           map_option ap_status (er_approvalRequest (pre_enforcementResult r)) = Some PENDING"
proof -
  obtain er evs eng' where v: "validateAction h e eng req A = Inr (er, evs, eng')"
    and al: "er_allowed er" and ra: "er_requiresApproval er"
    and st: "map_option ap_status (er_approvalRequest er) = Some PENDING"
    using validateAction_L2 [OF assms] by blast
  from st obtain approval where ap: "er_approvalRequest er = Some approval"
    and pe: "ap_status approval = PENDING"
    by auto
  show ?thesis
    using al ra ap pe by (simp add: preExecute_def v Let_def)
qed

lemma submitForApproval_pending:
  assumes "wf_approvedApprovers wfl \<noteq> []" and "rq_payload req \<noteq> JUndefined"
  shows "\<exists>approval evs wfl'. submitForApproval h e wfl req A = Inr (approval, evs, wfl') \<and>
           ap_id approval = generateApprovalId e \<and> ap_status approval = PENDING"
  using assms
  by (simp add: submitForApproval_def selectApprovers_def Let_def generateEvidenceHash_def
      hashPayload_def hashOfStringified_def)

text \<open>
  Whatever the state of the workflow, approved requests included, \<open>execute\<close> on an L2
  action by an agent of clearance L2 ends in a pending reference and never reaches the
  executor: \<open>validateAction\<close> makes a new pending approval request on every call.
\<close>

lemma execute_L2_pending:
  assumes "ACTION_CLEARANCE_MAP K = L2" and "ag_clearanceLevel A = L2" and "p \<noteq> JUndefined"
    and "wf_approvedApprovers (mc_approvalWorkflow mc) \<noteq> []"
  shows "xr_outcome (execute h e mc K A p ex) = ApprovalPending (generateApprovalId e) \<and>
         xr_executorCalls (execute h e mc K A p ex) = []"
proof -
  obtain r evs eng' where
    pre: "preExecute h e (mc_enforcementEngine mc) (newActionRequest e K A p) A = Inr (r, evs, eng')"
    and st: "\<not> pre_proceed r" "er_requiresApproval (pre_enforcementResult r)"
      "map_option ap_status (er_approvalRequest (pre_enforcementResult r)) = Some PENDING"
    using preExecute_L2 [of "newActionRequest e K A p" A h e "mc_enforcementEngine mc"] assms
    by auto
  obtain approval evs2 wfl' where
    sub: "submitForApproval h e (mc_approvalWorkflow mc) (newActionRequest e K A p) A =
            Inr (approval, evs2, wfl')"
    and id: "ap_id approval = generateApprovalId e"
    using submitForApproval_pending [of "mc_approvalWorkflow mc" "newActionRequest e K A p" h e A]
      assms
    by auto
  show ?thesis
    using st id by (simp add: execute_def pre sub Let_def)
qed

lemma generateApprovalId_nonempty: "generateApprovalId e \<noteq> []"
  by (simp add: generateApprovalId_def)

lemmas scenario_defs = mc_registered_def mc0_def new_MissionControl_def new_AuditTrail_def
  new_EnforcementEngine_def new_ApprovalWorkflow_def MissionControl_registerApprover_def
  registerApprover_def approver1_def agent_b_def resource_payload_def env1_def env2_def
  DEFAULT_WORKFLOW_CONFIG_def DEFAULT_GOVERNANCE_CONFIG_def

lemmas execute_defs = execute_def preExecute_def validateAction_def
  createApprovalRequest_def computePayloadHash_def hashOfStringified_def
  hasSufficientClearance_def newActionRequest_def Let_def submitForApproval_def
  selectApprovers_def slice0_def generateEvidenceHash_def hashPayload_def
  generateApprovalId_def show_int_def dec.simps digit_char_def statusOf_def getApproval_def

text \<open>
  C1 fails on the code in its second half. In scenario S3 the first \<open>execute\<close> returns a
  pending reference with the approval id \<open>L2-10-y1\<close> and does not invoke the executor,
  and \<open>approveAction\<close> drives that request to \<open>approved\<close>; the second \<open>execute\<close>
  for the same action kind and agent returns another pending reference,
  \<open>L2-20-y2\<close>, and does not invoke the executor either.
\<close>

theorem approved_L2_request_still_pending:
  "xr_outcome first_call = ApprovalPending ''L2-10-y1'' \<and>
   xr_executorCalls first_call = [] \<and>
   statusOf (xr_state first_call) ''L2-10-y1'' = Some PENDING \<and>
   statusOf mc_approved ''L2-10-y1'' = Some APPROVED \<and>
   xr_outcome second_call = ApprovalPending ''L2-20-y2'' \<and>
   xr_executorCalls second_call = [] \<and>
   statusOf (xr_state second_call) ''L2-10-y1'' = Some APPROVED \<and>
   statusOf (xr_state second_call) ''L2-20-y2'' = Some PENDING"
  by (simp add: second_call_def mc_approved_def first_call_def scenario_defs execute_defs
      approveAction_def approve_def checkApprovalThreshold_def getDecisions_def)

text \<open>
  C2 fails on the code. In scenario S5 two approval requests are pending;
  \<open>emergencyStop\<close> calls \<open>revoke\<close> on the first, whose guard admits approved requests
  only, so the call throws: no request is revoked, both are still pending, and no event is
  emitted.
\<close>

theorem emergencyStop_throws_on_pending:
  "map ap_status (MissionControl_getPendingApprovals mc_two_pending) = [PENDING, PENDING] \<and>
   fst stopped = Some (Error ''Cannot revoke request with status PENDING'') \<and>
   fst (snd stopped) = [] \<and>
   map ap_status (MissionControl_getPendingApprovals (snd (snd stopped))) = [PENDING, PENDING]"
  by (simp add: stopped_def mc_two_pending_def first_call_def scenario_defs execute_defs
      emergencyStop_def revoke_def MissionControl_getPendingApprovals_def getPendingApprovals_def)

end
